theory Spec2Isabelle
  imports Complex_Main
begin

section \<open>DTing sampling engine: collector.py and apm.py\<close>

text \<open>
  The development follows \<^verbatim>\<open>src/dting/core/collector.py\<close> (the Android metric
  extractors, the dispatching \<^verbatim>\<open>DataCollector\<close> and its polling loop) and
  \<^verbatim>\<open>src/dting/core/apm.py\<close> (the monitor with its alert check and its summary
  statistics). Python floats are read as real numbers, Python ints as integers, and
  the text a device command prints as an ASCII string.
\<close>

subsection \<open>Python string operations used by the extractors\<close>

definition newline :: char where
  "newline = CHR 0x0A"

text \<open>\<^verbatim>\<open>str.isspace\<close> on ASCII: tab, line feed, vertical tab, form feed, carriage
  return, the four separators 0x1C..0x1F and the space.\<close>

definition is_space :: "char \<Rightarrow> bool" where
  "is_space c = List.member
     [CHR 0x09, CHR 0x0A, CHR 0x0B, CHR 0x0C, CHR 0x0D,
      CHR 0x1C, CHR 0x1D, CHR 0x1E, CHR 0x1F, CHR 0x20] c"

definition is_digit :: "char \<Rightarrow> bool" where
  "is_digit c = List.member ''0123456789'' c"

text \<open>\<^verbatim>\<open>s.split(sep)\<close> for a one-character separator: every separator cuts, empty
  pieces are kept, the result is never empty.\<close>

fun split_on_acc :: "char \<Rightarrow> string \<Rightarrow> string \<Rightarrow> string list" where
  "split_on_acc sep cur [] = [cur]"
| "split_on_acc sep cur (c # cs) =
     (if c = sep then cur # split_on_acc sep [] cs
      else split_on_acc sep (cur @ [c]) cs)"

definition split_on :: "char \<Rightarrow> string \<Rightarrow> string list" where
  "split_on sep s = split_on_acc sep [] s"

text \<open>\<^verbatim>\<open>s.split()\<close>: runs of whitespace separate, no empty piece is produced.\<close>

fun split_ws_acc :: "string \<Rightarrow> string \<Rightarrow> string list" where
  "split_ws_acc cur [] = (if cur = [] then [] else [cur])"
| "split_ws_acc cur (c # cs) =
     (if is_space c then
        (if cur = [] then split_ws_acc [] cs else cur # split_ws_acc [] cs)
      else split_ws_acc (cur @ [c]) cs)"

definition split_ws :: "string \<Rightarrow> string list" where
  "split_ws s = split_ws_acc [] s"

definition strip :: "string \<Rightarrow> string" where
  "strip s = rev (dropWhile is_space (rev (dropWhile is_space s)))"

definition startswith :: "string \<Rightarrow> string \<Rightarrow> bool" where
  "startswith p s = (take (length p) s = p)"

text \<open>\<^verbatim>\<open>sub in s\<close>.\<close>

fun contains :: "string \<Rightarrow> string \<Rightarrow> bool" where
  "contains sub [] = (sub = [])"
| "contains sub (c # cs) = (startswith sub (c # cs) \<or> contains sub cs)"

text \<open>\<^verbatim>\<open>s.replace(ch, '')\<close> for a one-character \<^verbatim>\<open>ch\<close>.\<close>

definition remove_char :: "char \<Rightarrow> string \<Rightarrow> string" where
  "remove_char ch s = filter (\<lambda>c. c \<noteq> ch) s"

definition isdigit :: "string \<Rightarrow> bool" where
  "isdigit s = (s \<noteq> [] \<and> list_all is_digit s)"

text \<open>\<^verbatim>\<open>re.search(r'(\d+)', s)\<close>: the first maximal run of digits, if any.\<close>

definition search_digits :: "string \<Rightarrow> string option" where
  "search_digits s =
     (let r = dropWhile (\<lambda>c. \<not> is_digit c) s
      in if r = [] then None else Some (takeWhile is_digit r))"

text \<open>\<^verbatim>\<open>re.search(r'(\d+)%', s)\<close>: the first run of digits that a percent sign
  follows; the group is the run from the leftmost position that matches.\<close>

fun search_percent :: "string \<Rightarrow> string option" where
  "search_percent [] = None"
| "search_percent (c # cs) =
     (if is_digit c \<and> startswith ''%'' (dropWhile is_digit cs)
      then Some (c # takeWhile is_digit cs)
      else search_percent cs)"

subsection \<open>The Python runtime and the device gateway\<close>

text \<open>
  The conversions \<^verbatim>\<open>int(s)\<close>, \<^verbatim>\<open>float(s)\<close> and \<^verbatim>\<open>str(x)\<close> are built into the
  language; the extractors take them as a parameter. \<open>None\<close> stands for the
  \<^verbatim>\<open>ValueError\<close> they raise; \<open>py_float\<close> yields finite values only.
\<close>

record runtime =
  py_int :: "string \<Rightarrow> int option"
  py_float :: "string \<Rightarrow> real option"
  py_str :: "real \<Rightarrow> string"

text \<open>\<^verbatim>\<open>AndroidDevice.execute_adb\<close>: a command string is answered with the text
  printed by the device, or the call raises \<^verbatim>\<open>RuntimeError\<close> (\<open>None\<close>).\<close>

type_synonym device = "string \<Rightarrow> string option"

datatype pyval =
    PNone
  | PInt int
  | PFloat real
  | PStr string
  | PDict "(string \<times> pyval) list"

type_synonym pydict = "(string \<times> pyval) list"

text \<open>\<^verbatim>\<open>d[k] = v\<close> on a dictionary kept in insertion order.\<close>

fun dict_set :: "string \<Rightarrow> pyval \<Rightarrow> pydict \<Rightarrow> pydict" where
  "dict_set k v [] = [(k, v)]"
| "dict_set k v (p # ps) = (if fst p = k then (k, v) # ps else p # dict_set k v ps)"

definition dict_get :: "pydict \<Rightarrow> string \<Rightarrow> pyval option" where
  "dict_get d k = map_of d k"

subsection \<open>\<^verbatim>\<open>AndroidCollector\<close>\<close>

record net_sample =
  rx_bytes :: int
  tx_bytes :: int
  timestamp :: real

record android_collector =
  package_name :: string
  pid :: "string option"
  last_network_data :: "net_sample option"
  last_cpu_data :: "(int \<times> int) option"

text \<open>\<^verbatim>\<open>AndroidCollector.__init__\<close>.\<close>

definition new_android_collector :: "string \<Rightarrow> android_collector" where
  "new_android_collector pkg =
     \<lparr>package_name = pkg, pid = None, last_network_data = None, last_cpu_data = None\<rparr>"

text \<open>Truth value of \<^verbatim>\<open>self.pid\<close>: neither \<^verbatim>\<open>None\<close> nor the empty string.\<close>

definition pid_set :: "android_collector \<Rightarrow> bool" where
  "pid_set c = (case pid c of None \<Rightarrow> False | Some p \<Rightarrow> p \<noteq> [])"

definition the_pid :: "android_collector \<Rightarrow> string" where
  "the_pid c = (case pid c of None \<Rightarrow> [] | Some p \<Rightarrow> p)"

definition get_pid :: "device \<Rightarrow> android_collector \<Rightarrow> string option \<times> android_collector" where
  "get_pid dev c =
     (if package_name c = [] then (None, c)
      else
        (case dev (''shell pidof '' @ package_name c) of
           None \<Rightarrow> (None, c)
         | Some output \<Rightarrow>
             if output = [] then (None, c)
             else
               (case split_ws (strip output) of
                  [] \<Rightarrow> (None, c)
                | p # _ \<Rightarrow> (Some p, c\<lparr>pid := Some p\<rparr>))))"

text \<open>The statement every extractor starts with:
  \<^verbatim>\<open>if self.package_name and not self.pid: self.get_pid()\<close>.\<close>

definition refresh_pid :: "device \<Rightarrow> android_collector \<Rightarrow> android_collector" where
  "refresh_pid dev c =
     (if package_name c \<noteq> [] \<and> \<not> pid_set c then snd (get_pid dev c) else c)"

paragraph \<open>\<^verbatim>\<open>collect_cpu\<close>\<close>

text \<open>The outcome of a scan that returns from inside a loop, or raises there.\<close>

datatype 'a scan = NoMatch | Raised | Found 'a

fun scan_top_parts :: "runtime \<Rightarrow> string list \<Rightarrow> real scan" where
  "scan_top_parts rt [] = NoMatch"
| "scan_top_parts rt (part # parts) =
     (if contains ''%'' part \<and> isdigit (remove_char CHR ''.'' (remove_char CHR ''%'' part))
      then (case py_float rt (remove_char CHR ''%'' part) of
              None \<Rightarrow> Raised
            | Some v \<Rightarrow> Found v)
      else scan_top_parts rt parts)"

fun scan_top_lines :: "runtime \<Rightarrow> string \<Rightarrow> string list \<Rightarrow> real scan" where
  "scan_top_lines rt p [] = NoMatch"
| "scan_top_lines rt p (line # lines) =
     (if contains p line \<and> contains ''%'' line then
        (case scan_top_parts rt (split_ws line) of
           NoMatch \<Rightarrow> scan_top_lines rt p lines
         | Raised \<Rightarrow> Raised
         | Found v \<Rightarrow> Found v)
      else scan_top_lines rt p lines)"

text \<open>The line \<^verbatim>\<open>cpu  user nice system idle ...\<close> of \<^verbatim>\<open>/proc/stat\<close>: the sum of
  all its numeric fields and the fourth of them. \<open>None\<close> when \<^verbatim>\<open>int\<close> raises
  \<^verbatim>\<open>ValueError\<close> or \<^verbatim>\<open>fields[4]\<close> raises \<^verbatim>\<open>IndexError\<close>.\<close>

definition parse_cpu_line :: "runtime \<Rightarrow> string \<Rightarrow> (int \<times> int) option" where
  "parse_cpu_line rt line =
     (let fields = split_ws line in
      case those (map (py_int rt) (tl fields)) of
        None \<Rightarrow> None
      | Some nums \<Rightarrow>
          if length fields \<le> 4 then None
          else (case py_int rt (fields ! 4) of
                  None \<Rightarrow> None
                | Some idle_time \<Rightarrow> Some (sum_list nums, idle_time)))"

text \<open>The global branch up to the two counters: the command, the first line that
  starts with \<^verbatim>\<open>cpu\<close> and a space, and its fields. \<open>None\<close> when the command or
  the parsing raises, or no line matches; the collector's state is untouched then.\<close>

definition read_proc_stat :: "runtime \<Rightarrow> device \<Rightarrow> (int \<times> int) option" where
  "read_proc_stat rt dev =
     (case dev ''shell cat /proc/stat'' of
        None \<Rightarrow> None
      | Some output \<Rightarrow>
          (case find (startswith ''cpu '') (split_on newline output) of
             None \<Rightarrow> None
           | Some line \<Rightarrow> parse_cpu_line rt line))"

definition collect_cpu :: "runtime \<Rightarrow> device \<Rightarrow> android_collector \<Rightarrow> real \<times> android_collector" where
  "collect_cpu rt dev c0 =
     (let c = refresh_pid dev c0 in
      if pid_set c then
        (case dev (''shell top -p '' @ the_pid c @ '' -n 1'') of
           None \<Rightarrow> (0, c)
         | Some output \<Rightarrow>
             (case scan_top_lines rt (the_pid c) (split_on newline output) of
                Found v \<Rightarrow> (v, c)
              | _ \<Rightarrow> (0, c)))
      else
        (case read_proc_stat rt dev of
           None \<Rightarrow> (0, c)
         | Some (total_time, idle_time) \<Rightarrow>
             (case last_cpu_data c of
                None \<Rightarrow> (0, c\<lparr>last_cpu_data := Some (total_time, idle_time)\<rparr>)
              | Some (last_total, last_idle) \<Rightarrow>
                  let total_diff = total_time - last_total;
                      idle_diff = idle_time - last_idle
                  in if total_diff > 0 then
                       (100 * real_of_int (total_diff - idle_diff) / real_of_int total_diff,
                        c\<lparr>last_cpu_data := Some (total_time, idle_time)\<rparr>)
                     else (0, c\<lparr>last_cpu_data := Some (total_time, idle_time)\<rparr>))))"

paragraph \<open>\<^verbatim>\<open>collect_network\<close>\<close>

text \<open>The first line of \<^verbatim>\<open>/proc/<pid>/status\<close> that starts with \<^verbatim>\<open>Uid:\<close> gives the
  uid as its second word: \<open>NoMatch\<close> without such a line, \<open>Raised\<close> when the line
  has one word only.\<close>

definition find_uid :: "string list \<Rightarrow> string scan" where
  "find_uid lines =
     (case find (startswith ''Uid:'') lines of
        None \<Rightarrow> NoMatch
      | Some line \<Rightarrow>
          (case split_ws line of
             _ # uid # _ \<Rightarrow> Found uid
           | _ \<Rightarrow> Raised))"

text \<open>The byte counters summed over the lines of the uid's statistics; \<open>None\<close> when
  an \<^verbatim>\<open>int\<close> conversion raises.\<close>

fun sum_net_lines :: "runtime \<Rightarrow> int \<times> int \<Rightarrow> string list \<Rightarrow> (int \<times> int) option" where
  "sum_net_lines rt (rx, tx) [] = Some (rx, tx)"
| "sum_net_lines rt (rx, tx) (line # lines) =
     (if strip line \<noteq> [] \<and> length (split_ws line) \<ge> 8 then
        (case py_int rt (split_ws line ! 5) of
           None \<Rightarrow> None
         | Some r \<Rightarrow>
             (case py_int rt (split_ws line ! 7) of
                None \<Rightarrow> None
              | Some t \<Rightarrow> sum_net_lines rt (rx + r, tx + t) lines))
      else sum_net_lines rt (rx, tx) lines)"

definition neutral_network :: pydict where
  "neutral_network =
     [(''rx_speed'', PInt 0), (''tx_speed'', PInt 0), (''rx_total'', PInt 0), (''tx_total'', PInt 0)]"

text \<open>The process branch up to the two byte counters: the uid of the process, then
  the sums over the uid's lines. \<open>None\<close> when a command or a conversion raises, or
  no uid is found; the collector's state is untouched then.\<close>

definition read_net_counters :: "runtime \<Rightarrow> device \<Rightarrow> string \<Rightarrow> (int \<times> int) option" where
  "read_net_counters rt dev p =
     (case dev (''shell cat /proc/'' @ p @ ''/status'') of
        None \<Rightarrow> None
      | Some uid_output \<Rightarrow>
          (case find_uid (split_on newline uid_output) of
             Found uid \<Rightarrow>
               (case dev (''shell cat /proc/net/xt_qtaguid/stats | grep '' @ uid) of
                  None \<Rightarrow> None
                | Some rx_output \<Rightarrow> sum_net_lines rt (0, 0) (split_on newline rx_output))
           | _ \<Rightarrow> None))"

definition collect_network ::
  "runtime \<Rightarrow> device \<Rightarrow> real \<Rightarrow> android_collector \<Rightarrow> pydict \<times> android_collector" where
  "collect_network rt dev now c0 =
     (let c = refresh_pid dev c0 in
      if pid_set c then
        (case read_net_counters rt dev (the_pid c) of
           None \<Rightarrow> (neutral_network, c)
         | Some (rx, tx) \<Rightarrow>
             let current_data = \<lparr>rx_bytes = rx, tx_bytes = tx, timestamp = now\<rparr> in
             (case last_network_data c of
                None \<Rightarrow> (neutral_network, c\<lparr>last_network_data := Some current_data\<rparr>)
              | Some prev \<Rightarrow>
                  let time_diff = now - timestamp prev in
                  if time_diff > 0 then
                    ([(''rx_speed'', PFloat (real_of_int (rx - rx_bytes prev) / time_diff / 1024)),
                      (''tx_speed'', PFloat (real_of_int (tx - tx_bytes prev) / time_diff / 1024)),
                      (''rx_total'', PFloat (real_of_int rx / 1024)),
                      (''tx_total'', PFloat (real_of_int tx / 1024))],
                     c\<lparr>last_network_data := Some current_data\<rparr>)
                  else (neutral_network, c\<lparr>last_network_data := Some current_data\<rparr>)))
      else (neutral_network, c))"

paragraph \<open>\<^verbatim>\<open>collect_fps\<close>\<close>

text \<open>The loop over the lines of \<^verbatim>\<open>dumpsys gfxinfo\<close>, with its two variables
  \<^verbatim>\<open>in_frame_stats\<close> and \<^verbatim>\<open>frame_times\<close>; it breaks at 120 retained values.\<close>

fun scan_frames :: "runtime \<Rightarrow> bool \<Rightarrow> real list \<Rightarrow> string list \<Rightarrow> real list" where
  "scan_frames rt in_frame_stats frame_times [] = frame_times"
| "scan_frames rt in_frame_stats frame_times (line # lines) =
     (if contains ''Total frames rendered:'' line then
        scan_frames rt True frame_times lines
      else if in_frame_stats \<and> strip line \<noteq> [] then
        (case split_ws (strip line) of
           [] \<Rightarrow> scan_frames rt in_frame_stats frame_times lines
         | w # _ \<Rightarrow>
             (case py_float rt w of
                None \<Rightarrow> scan_frames rt in_frame_stats frame_times lines
              | Some time_value \<Rightarrow>
                  let frame_times' =
                        (if time_value > 0 then frame_times @ [time_value] else frame_times)
                  in if length frame_times' \<ge> 120 then frame_times'
                     else scan_frames rt in_frame_stats frame_times' lines))
      else if length frame_times \<ge> 120 then frame_times
      else scan_frames rt in_frame_stats frame_times lines)"

text \<open>\<^verbatim>\<open>xs[-n:]\<close> for a positive \<^verbatim>\<open>n\<close>.\<close>

definition last_n :: "nat \<Rightarrow> 'a list \<Rightarrow> 'a list" where
  "last_n n xs = drop (length xs - n) xs"

definition fps_of_frame_times :: "real list \<Rightarrow> real" where
  "fps_of_frame_times frame_times =
     (if frame_times \<noteq> [] then
        (let avg_frame_time = sum_list (last_n 60 frame_times) / real (length (last_n 60 frame_times))
         in if avg_frame_time > 0 then min (1000 / avg_frame_time) 60 else 0)
      else 0)"

definition collect_fps :: "runtime \<Rightarrow> device \<Rightarrow> android_collector \<Rightarrow> real" where
  "collect_fps rt dev c =
     (if package_name c = [] then 0
      else
        (case dev (''shell dumpsys gfxinfo '' @ package_name c) of
           None \<Rightarrow> 0
         | Some output \<Rightarrow>
             fps_of_frame_times (scan_frames rt False [] (split_on newline output))))"

paragraph \<open>The frame-render durations in the text, for comparison with the scan\<close>

text \<open>The duration a line of the frame statistics gives: its first word read as a
  float, when the line has a word, the word is a number and the number is positive.\<close>

definition frame_duration :: "runtime \<Rightarrow> string \<Rightarrow> real option" where
  "frame_duration rt line =
     (case split_ws line of
        [] \<Rightarrow> None
      | w # _ \<Rightarrow>
          (case py_float rt w of
             None \<Rightarrow> None
           | Some v \<Rightarrow> if 0 < v then Some v else None))"

text \<open>All frame-render durations of the text, in the order of its lines: those of the
  lines that follow the first line holding \<^verbatim>\<open>Total frames rendered:\<close>, lines with that
  marker left out.\<close>

definition frame_durations :: "runtime \<Rightarrow> string list \<Rightarrow> real list" where
  "frame_durations rt lines =
     List.map_filter (frame_duration rt)
       (filter (\<lambda>l. \<not> contains ''Total frames rendered:'' l)
          (dropWhile (\<lambda>l. \<not> contains ''Total frames rendered:'' l) lines))"

text \<open>The same from inside the statistics (\<open>in_stats\<close>) or from before them.\<close>

definition durations_from :: "runtime \<Rightarrow> bool \<Rightarrow> string list \<Rightarrow> real list" where
  "durations_from rt in_stats lines =
     List.map_filter (frame_duration rt)
       (filter (\<lambda>l. \<not> contains ''Total frames rendered:'' l)
          (if in_stats then lines
           else dropWhile (\<lambda>l. \<not> contains ''Total frames rendered:'' l) lines))"

paragraph \<open>\<^verbatim>\<open>collect_memory\<close> and \<^verbatim>\<open>collect_memory_detail\<close>\<close>

fun scan_meminfo_total :: "runtime \<Rightarrow> string list \<Rightarrow> real scan" where
  "scan_meminfo_total rt [] = NoMatch"
| "scan_meminfo_total rt (line # lines) =
     (if contains ''TOTAL'' line \<and> contains ''kB'' line then
        (case search_digits line of
           None \<Rightarrow> scan_meminfo_total rt lines
         | Some g \<Rightarrow>
             (case py_float rt g of
                None \<Rightarrow> Raised
              | Some v \<Rightarrow> Found (v / 1024)))
      else scan_meminfo_total rt lines)"

text \<open>\<^verbatim>\<open>int(line.split()[1])\<close>.\<close>

definition second_int :: "runtime \<Rightarrow> string \<Rightarrow> int option" where
  "second_int rt line =
     (case split_ws line of
        _ # w # _ \<Rightarrow> py_int rt w
      | _ \<Rightarrow> None)"

fun scan_proc_meminfo :: "runtime \<Rightarrow> int \<times> int \<Rightarrow> string list \<Rightarrow> (int \<times> int) option" where
  "scan_proc_meminfo rt (mem_total, mem_available) [] = Some (mem_total, mem_available)"
| "scan_proc_meminfo rt (mem_total, mem_available) (line # lines) =
     (if startswith ''MemTotal:'' line then
        (case second_int rt line of
           None \<Rightarrow> None
         | Some v \<Rightarrow> scan_proc_meminfo rt (v, mem_available) lines)
      else if startswith ''MemAvailable:'' line then
        (case second_int rt line of
           None \<Rightarrow> None
         | Some v \<Rightarrow> scan_proc_meminfo rt (mem_total, v) lines)
      else scan_proc_meminfo rt (mem_total, mem_available) lines)"

definition collect_memory :: "runtime \<Rightarrow> device \<Rightarrow> android_collector \<Rightarrow> real \<times> android_collector" where
  "collect_memory rt dev c0 =
     (let c = refresh_pid dev c0 in
      if pid_set c then
        (case dev (''shell dumpsys meminfo '' @ the_pid c) of
           None \<Rightarrow> (0, c)
         | Some output \<Rightarrow>
             (case scan_meminfo_total rt (split_on newline output) of
                Found v \<Rightarrow> (v, c)
              | _ \<Rightarrow> (0, c)))
      else
        (case dev ''shell cat /proc/meminfo'' of
           None \<Rightarrow> (0, c)
         | Some output \<Rightarrow>
             (case scan_proc_meminfo rt (0, 0) (split_on newline output) of
                None \<Rightarrow> (0, c)
              | Some (mem_total, mem_available) \<Rightarrow>
                  if mem_total > 0 then (real_of_int (mem_total - mem_available) / 1024, c)
                  else (0, c))))"

text \<open>One branch of the loop of \<^verbatim>\<open>collect_memory_detail\<close>: the first number of the
  line, in MB, stored under \<open>key\<close>.\<close>

definition set_first_number_mb :: "runtime \<Rightarrow> string \<Rightarrow> string \<Rightarrow> pydict \<Rightarrow> pydict option" where
  "set_first_number_mb rt key line memory_detail =
     (case search_digits line of
        None \<Rightarrow> Some memory_detail
      | Some g \<Rightarrow>
          (case py_float rt g of
             None \<Rightarrow> None
           | Some v \<Rightarrow> Some (dict_set key (PFloat (v / 1024)) memory_detail)))"

fun scan_memory_detail :: "runtime \<Rightarrow> pydict \<Rightarrow> string list \<Rightarrow> pydict option" where
  "scan_memory_detail rt memory_detail [] = Some memory_detail"
| "scan_memory_detail rt memory_detail (line # lines) =
     (case (if contains ''Pss Total'' (strip line) then
              set_first_number_mb rt ''pss_total'' (strip line) memory_detail
            else if contains ''Private Dirty'' (strip line) then
              set_first_number_mb rt ''private_dirty'' (strip line) memory_detail
            else if contains ''Private Clean'' (strip line) then
              set_first_number_mb rt ''private_clean'' (strip line) memory_detail
            else Some memory_detail) of
        None \<Rightarrow> None
      | Some memory_detail' \<Rightarrow> scan_memory_detail rt memory_detail' lines)"

definition collect_memory_detail ::
  "runtime \<Rightarrow> device \<Rightarrow> android_collector \<Rightarrow> pydict \<times> android_collector" where
  "collect_memory_detail rt dev c0 =
     (let c = refresh_pid dev c0 in
      if pid_set c then
        (case dev (''shell dumpsys meminfo '' @ the_pid c) of
           None \<Rightarrow> ([], c)
         | Some output \<Rightarrow>
             (case scan_memory_detail rt [] (split_on newline output) of
                None \<Rightarrow> ([], c)
              | Some memory_detail \<Rightarrow> (memory_detail, c)))
      else ([], c))"

paragraph \<open>\<^verbatim>\<open>collect_battery\<close>, \<^verbatim>\<open>collect_gpu\<close>, \<^verbatim>\<open>collect_thermal\<close>\<close>

text \<open>\<^verbatim>\<open>line.split(':')[1].strip()\<close>.\<close>

definition after_colon :: "string \<Rightarrow> string option" where
  "after_colon line =
     (case split_on CHR '':'' line of
        _ # f # _ \<Rightarrow> Some (strip f)
      | _ \<Rightarrow> None)"

definition int_after_colon :: "runtime \<Rightarrow> string \<Rightarrow> int option" where
  "int_after_colon rt line =
     (case after_colon line of
        None \<Rightarrow> None
      | Some f \<Rightarrow> py_int rt f)"

definition battery_line :: "runtime \<Rightarrow> string \<Rightarrow> pydict \<Rightarrow> pydict option" where
  "battery_line rt line battery_info =
     (if contains ''level:'' line then
        map_option (\<lambda>v. dict_set ''level'' (PInt v) battery_info) (int_after_colon rt line)
      else if contains ''temperature:'' line then
        map_option (\<lambda>v. dict_set ''temperature'' (PFloat (real_of_int v / 10)) battery_info)
          (int_after_colon rt line)
      else if contains ''voltage:'' line then
        map_option (\<lambda>v. dict_set ''voltage'' (PInt v) battery_info) (int_after_colon rt line)
      else if contains ''current now:'' line then
        map_option (\<lambda>v. dict_set ''current'' (PInt v) battery_info) (int_after_colon rt line)
      else if contains ''status:'' line then
        map_option (\<lambda>f. dict_set ''status'' (PStr f) battery_info) (after_colon line)
      else Some battery_info)"

fun scan_battery :: "runtime \<Rightarrow> pydict \<Rightarrow> string list \<Rightarrow> pydict option" where
  "scan_battery rt battery_info [] = Some battery_info"
| "scan_battery rt battery_info (line # lines) =
     (case battery_line rt (strip line) battery_info of
        None \<Rightarrow> None
      | Some battery_info' \<Rightarrow> scan_battery rt battery_info' lines)"

definition battery_power :: "pydict \<Rightarrow> pydict" where
  "battery_power battery_info =
     (case (dict_get battery_info ''voltage'', dict_get battery_info ''current'') of
        (Some (PInt voltage), Some (PInt current)) \<Rightarrow>
          dict_set ''power'' (PFloat (\<bar>real_of_int (voltage * current) / 1000000\<bar>)) battery_info
      | _ \<Rightarrow> battery_info)"

definition collect_battery :: "runtime \<Rightarrow> device \<Rightarrow> pydict" where
  "collect_battery rt dev =
     (case dev ''shell dumpsys battery'' of
        None \<Rightarrow> []
      | Some output \<Rightarrow>
          (case scan_battery rt [] (split_on newline output) of
             None \<Rightarrow> []
           | Some battery_info \<Rightarrow> battery_power battery_info))"

text \<open>The first \<^verbatim>\<open>try\<close> block of \<^verbatim>\<open>collect_gpu\<close>: \<open>Found\<close> for a value it returns,
  \<open>NoMatch\<close> when it falls through, \<open>Raised\<close> when it raises.\<close>

definition gpu_busy :: "runtime \<Rightarrow> device \<Rightarrow> real scan" where
  "gpu_busy rt dev =
     (case dev ''shell cat /sys/class/kgsl/kgsl-3d0/gpubusy'' of
        None \<Rightarrow> Raised
      | Some output \<Rightarrow>
          if output = [] then NoMatch
          else
            (case those (map (py_int rt) (split_ws output)) of
               Some [busy_time, total_time] \<Rightarrow>
                 if total_time > 0
                 then Found (real_of_int busy_time / real_of_int total_time * 100)
                 else NoMatch
             | _ \<Rightarrow> Raised))"

definition gpu_mali :: "runtime \<Rightarrow> device \<Rightarrow> real" where
  "gpu_mali rt dev =
     (case dev ''shell cat /proc/mali/utilization'' of
        None \<Rightarrow> 0
      | Some output \<Rightarrow>
          if output \<noteq> [] \<and> contains ''%'' output then
            (case search_percent output of
               None \<Rightarrow> 0
             | Some g \<Rightarrow> (case py_float rt g of None \<Rightarrow> 0 | Some v \<Rightarrow> v))
          else 0)"

definition collect_gpu :: "runtime \<Rightarrow> device \<Rightarrow> real" where
  "collect_gpu rt dev =
     (case gpu_busy rt dev of
        Found v \<Rightarrow> v
      | NoMatch \<Rightarrow> 0
      | Raised \<Rightarrow> gpu_mali rt dev)"

definition py_min :: "real list \<Rightarrow> real" where
  "py_min values = fold min (tl values) (hd values)"

definition py_max :: "real list \<Rightarrow> real" where
  "py_max values = fold max (tl values) (hd values)"

definition thermal_cpu_temp :: "runtime \<Rightarrow> device \<Rightarrow> pydict" where
  "thermal_cpu_temp rt dev =
     (case dev ''shell cat /sys/class/thermal/thermal_zone*/temp'' of
        None \<Rightarrow> []
      | Some output \<Rightarrow>
          (case those (map (py_int rt) (filter isdigit (map strip (split_on newline output)))) of
             None \<Rightarrow> []
           | Some temps \<Rightarrow>
               if temps \<noteq> []
               then [(''cpu_temp'', PFloat (py_max (map (\<lambda>t. real_of_int t / 1000) temps)))]
               else []))"

definition collect_thermal :: "runtime \<Rightarrow> device \<Rightarrow> pydict" where
  "collect_thermal rt dev =
     (let thermal_info = thermal_cpu_temp rt dev;
          battery_info = collect_battery rt dev
      in case dict_get battery_info ''temperature'' of
           None \<Rightarrow> thermal_info
         | Some t \<Rightarrow> dict_set ''battery_temp'' t thermal_info)"

subsection \<open>\<^verbatim>\<open>PerformanceData\<close> and \<^verbatim>\<open>DataCollector\<close>\<close>

record performance_data =
  pd_timestamp :: real
  cpu_usage :: real
  memory_usage :: real
  memory_detail :: pydict
  network_usage :: pydict
  fps :: real
  battery_info :: pydict
  gpu_usage :: real
  thermal_info :: pydict
  jank_info :: pydict

text \<open>\<^verbatim>\<open>PerformanceData()\<close>, stamped with the clock's reading.\<close>

definition new_performance_data :: "real \<Rightarrow> performance_data" where
  "new_performance_data now =
     \<lparr>pd_timestamp = now, cpu_usage = 0, memory_usage = 0, memory_detail = [],
      network_usage = [], fps = 0, battery_info = [], gpu_usage = 0, thermal_info = [],
      jank_info = []\<rparr>"

text \<open>
  \<^verbatim>\<open>DataCollector\<close> calls the methods of \<^verbatim>\<open>self.collector\<close> by name. The record
  lists the eight methods of a platform collector with state \<open>'c\<close>; a method the class
  does not define is \<open>None\<close>, and calling it raises \<^verbatim>\<open>AttributeError\<close>. The methods
  themselves catch what they raise.
\<close>

record 'c collector_api =
  m_collect_cpu :: "('c \<Rightarrow> real \<times> 'c) option"
  m_collect_memory :: "('c \<Rightarrow> real \<times> 'c) option"
  m_collect_memory_detail :: "('c \<Rightarrow> pydict \<times> 'c) option"
  m_collect_network :: "('c \<Rightarrow> pydict \<times> 'c) option"
  m_collect_fps :: "('c \<Rightarrow> real \<times> 'c) option"
  m_collect_battery :: "('c \<Rightarrow> pydict \<times> 'c) option"
  m_collect_gpu :: "('c \<Rightarrow> real \<times> 'c) option"
  m_collect_thermal :: "('c \<Rightarrow> pydict \<times> 'c) option"

text \<open>The methods of \<^verbatim>\<open>AndroidCollector\<close>, bound to what the device answers and to
  the clock's reading at the time of the call.\<close>

definition android_api :: "runtime \<Rightarrow> device \<Rightarrow> real \<Rightarrow> android_collector collector_api" where
  "android_api rt dev now =
     \<lparr>m_collect_cpu = Some (collect_cpu rt dev),
      m_collect_memory = Some (collect_memory rt dev),
      m_collect_memory_detail = Some (collect_memory_detail rt dev),
      m_collect_network = Some (collect_network rt dev now),
      m_collect_fps = Some (\<lambda>c. (collect_fps rt dev c, c)),
      m_collect_battery = Some (\<lambda>c. (collect_battery rt dev, c)),
      m_collect_gpu = Some (\<lambda>c. (collect_gpu rt dev, c)),
      m_collect_thermal = Some (\<lambda>c. (collect_thermal rt dev, c))\<rparr>"

record thread =
  th_interval :: real
  th_duration :: "real option"

record ('c, 'm) data_collector =
  is_collecting :: bool
  collection_thread :: "thread option"
  data_buffer :: "performance_data list"
  max_buffer_size :: int
  callbacks :: "(performance_data \<Rightarrow> 'm \<Rightarrow> 'm) list"
  collector :: 'c

text \<open>\<^verbatim>\<open>DataCollector.__init__\<close>; \<open>buffer_size\<close> is the configured
  \<^verbatim>\<open>data.buffer_size\<close>.\<close>

definition default_buffer_size :: int where
  "default_buffer_size = 1000"

definition new_data_collector :: "int \<Rightarrow> 'c \<Rightarrow> ('c, 'm) data_collector" where
  "new_data_collector buffer_size col =
     \<lparr>is_collecting = False, collection_thread = None, data_buffer = [],
      max_buffer_size = buffer_size, callbacks = [], collector = col\<rparr>"

definition add_callback ::
  "(performance_data \<Rightarrow> 'm \<Rightarrow> 'm) \<Rightarrow> ('c, 'm) data_collector \<Rightarrow> ('c, 'm) data_collector" where
  "add_callback callback dc = dc\<lparr>callbacks := callbacks dc @ [callback]\<rparr>"

datatype exn = ValueError string | AttributeError string | TypeError string

text \<open>A call of a collector method from \<^verbatim>\<open>DataCollector\<close>.\<close>

definition call_method ::
  "string \<Rightarrow> ('c \<Rightarrow> 'a \<times> 'c) option \<Rightarrow> ('a \<Rightarrow> pyval) \<Rightarrow> ('c, 'm) data_collector
     \<Rightarrow> (exn + pyval) \<times> ('c, 'm) data_collector" where
  "call_method name m wrap dc =
     (case m of
        None \<Rightarrow> (Inl (AttributeError name), dc)
      | Some f \<Rightarrow>
          (case f (collector dc) of
             (v, c') \<Rightarrow> (Inr (wrap v), dc\<lparr>collector := c'\<rparr>)))"

text \<open>The body of the \<^verbatim>\<open>try\<close> statement of \<^verbatim>\<open>collect_single\<close>.\<close>

definition collect_single_body ::
  "'c collector_api \<Rightarrow> string \<Rightarrow> ('c, 'm) data_collector
     \<Rightarrow> (exn + pyval) \<times> ('c, 'm) data_collector" where
  "collect_single_body api target dc =
     (if target = ''cpu'' then call_method ''collect_cpu'' (m_collect_cpu api) PFloat dc
      else if target = ''memory'' then
        call_method ''collect_memory'' (m_collect_memory api) PFloat dc
      else if target = ''memory_detail'' then
        call_method ''collect_memory_detail'' (m_collect_memory_detail api) PDict dc
      else if target = ''network'' then
        call_method ''collect_network'' (m_collect_network api) PDict dc
      else if target = ''fps'' then call_method ''collect_fps'' (m_collect_fps api) PFloat dc
      else if target = ''battery'' then
        call_method ''collect_battery'' (m_collect_battery api) PDict dc
      else if target = ''gpu'' then call_method ''collect_gpu'' (m_collect_gpu api) PFloat dc
      else if target = ''thermal'' then
        call_method ''collect_thermal'' (m_collect_thermal api) PDict dc
      else (Inl (ValueError (''Unknown target: '' @ target)), dc))"

text \<open>\<^verbatim>\<open>collect_single\<close>: the handler \<^verbatim>\<open>except Exception\<close> prints the exception and
  returns \<^verbatim>\<open>None\<close>. The result is \<open>Inr v\<close> for a value returned to the caller and
  \<open>Inl e\<close> for an exception that reaches the caller.\<close>

definition collect_single ::
  "'c collector_api \<Rightarrow> string \<Rightarrow> ('c, 'm) data_collector
     \<Rightarrow> (exn + pyval) \<times> ('c, 'm) data_collector" where
  "collect_single api target dc =
     (case collect_single_body api target dc of
        (Inl e, dc') \<Rightarrow> (Inr PNone, dc')
      | (Inr v, dc') \<Rightarrow> (Inr v, dc'))"

text \<open>\<^verbatim>\<open>collect_all\<close>: the assignments run in order until one of them raises; the
  fields not yet assigned keep their defaults. \<^verbatim>\<open>collect_gpu\<close> and
  \<^verbatim>\<open>collect_thermal\<close> are called only if the collector has them.\<close>

definition collect_all :: "'c collector_api \<Rightarrow> real \<Rightarrow> 'c \<Rightarrow> performance_data \<times> 'c" where
  "collect_all api now c0 =
     (let d0 = new_performance_data now in
      case m_collect_cpu api of None \<Rightarrow> (d0, c0) | Some f1 \<Rightarrow>
      (case f1 c0 of (v1, c1) \<Rightarrow> let d1 = d0\<lparr>cpu_usage := v1\<rparr> in
      case m_collect_memory api of None \<Rightarrow> (d1, c1) | Some f2 \<Rightarrow>
      (case f2 c1 of (v2, c2) \<Rightarrow> let d2 = d1\<lparr>memory_usage := v2\<rparr> in
      case m_collect_memory_detail api of None \<Rightarrow> (d2, c2) | Some f3 \<Rightarrow>
      (case f3 c2 of (v3, c3) \<Rightarrow> let d3 = d2\<lparr>memory_detail := v3\<rparr> in
      case m_collect_network api of None \<Rightarrow> (d3, c3) | Some f4 \<Rightarrow>
      (case f4 c3 of (v4, c4) \<Rightarrow> let d4 = d3\<lparr>network_usage := v4\<rparr> in
      case m_collect_fps api of None \<Rightarrow> (d4, c4) | Some f5 \<Rightarrow>
      (case f5 c4 of (v5, c5) \<Rightarrow> let d5 = d4\<lparr>fps := v5\<rparr> in
      case m_collect_battery api of None \<Rightarrow> (d5, c5) | Some f6 \<Rightarrow>
      (case f6 c5 of (v6, c6) \<Rightarrow> let d6 = d5\<lparr>battery_info := v6\<rparr> in
      (case (case m_collect_gpu api of
               None \<Rightarrow> (d6, c6)
             | Some f7 \<Rightarrow> (case f7 c6 of (v7, c7) \<Rightarrow> (d6\<lparr>gpu_usage := v7\<rparr>, c7))) of
         (d7, c7) \<Rightarrow>
           (case m_collect_thermal api of
              None \<Rightarrow> (d7, c7)
            | Some f8 \<Rightarrow> (case f8 c7 of (v8, c8) \<Rightarrow> (d7\<lparr>thermal_info := v8\<rparr>, c8)))))))))))"

definition start_continuous_collection ::
  "real \<Rightarrow> real option \<Rightarrow> ('c, 'm) data_collector \<Rightarrow> ('c, 'm) data_collector" where
  "start_continuous_collection interval duration dc =
     (if is_collecting dc then dc
      else dc\<lparr>is_collecting := True,
              collection_thread := Some \<lparr>th_interval = interval, th_duration = duration\<rparr>\<rparr>)"

text \<open>\<^verbatim>\<open>stop_continuous_collection\<close> clears the flag and joins the thread, if there is
  one. Joining waits for the loop to leave and changes no field; called from a thread
  other than the loop's own, on a thread that \<^verbatim>\<open>start_continuous_collection\<close> has
  started, it does not raise.\<close>

definition stop_continuous_collection :: "('c, 'm) data_collector \<Rightarrow> ('c, 'm) data_collector" where
  "stop_continuous_collection dc = dc\<lparr>is_collecting := False\<rparr>"

paragraph \<open>\<^verbatim>\<open>_collection_loop\<close>\<close>

text \<open>
  What the loop meets while it runs, by the number \<open>k\<close> of the iteration:
  the collector methods bound to the device's answers and to the clock,
  the time iteration \<open>k\<close> takes beyond the sleep it asks for, and
  whether another thread has cleared \<^verbatim>\<open>is_collecting\<close> when the loop tests it.
\<close>

record 'c world =
  api_at :: "nat \<Rightarrow> real \<Rightarrow> 'c collector_api"
  latency_at :: "nat \<Rightarrow> real"
  stop_at :: "nat \<Rightarrow> bool"

text \<open>\<^verbatim>\<open>self.data_buffer.append(data)\<close> and the size limit that follows it.\<close>

definition buffer_append :: "int \<Rightarrow> 'a list \<Rightarrow> 'a \<Rightarrow> 'a list" where
  "buffer_append max_size buf data =
     (let buf' = buf @ [data]
      in if int (length buf') > max_size then tl buf' else buf')"

text \<open>One pass through the loop body up to the sleep: assemble, store, notify.\<close>

definition tick ::
  "'c collector_api \<Rightarrow> real \<Rightarrow> ('c, 'm) data_collector \<times> 'm
     \<Rightarrow> performance_data \<times> ('c, 'm) data_collector \<times> 'm" where
  "tick api now s =
     (case s of (dc, m) \<Rightarrow>
        (case collect_all api now (collector dc) of (data, c') \<Rightarrow>
           (data,
            dc\<lparr>collector := c',
               data_buffer := buffer_append (max_buffer_size dc) (data_buffer dc) data\<rparr>,
            fold (\<lambda>callback. callback data) (callbacks dc) m)))"

text \<open>\<^verbatim>\<open>duration and (time.time() - start_time) >= duration\<close>; a duration that is
  \<^verbatim>\<open>None\<close> or zero is false.\<close>

definition duration_elapsed :: "real option \<Rightarrow> real \<Rightarrow> real \<Rightarrow> bool" where
  "duration_elapsed duration now start_time =
     (case duration of
        None \<Rightarrow> False
      | Some d \<Rightarrow> d \<noteq> 0 \<and> now - start_time \<ge> d)"

datatype loop_exit = Exited | Crashed

text \<open>
  The loop, with the number of iterations it may take as fuel (\<open>None\<close>: not left
  within the fuel). \<open>k\<close> numbers the iteration, \<open>now\<close> is the clock's reading in
  it, \<open>trace\<close> lists the samples assembled so far. A negative interval makes
  \<^verbatim>\<open>time.sleep\<close> raise, in the body and again in the handler, which ends the thread
  with the flag still set.
\<close>

fun collection_loop ::
  "nat \<Rightarrow> 'c world \<Rightarrow> real \<Rightarrow> real option \<Rightarrow> real \<Rightarrow> nat \<Rightarrow> real \<Rightarrow> performance_data list
     \<Rightarrow> ('c, 'm) data_collector \<times> 'm
     \<Rightarrow> (loop_exit \<times> performance_data list \<times> ('c, 'm) data_collector \<times> 'm) option" where
  "collection_loop 0 w interval duration start_time k now trace s = None"
| "collection_loop (Suc fuel) w interval duration start_time k now trace s =
     (if \<not> is_collecting (fst s) \<or> stop_at w k then
        Some (Exited, trace, (fst s)\<lparr>is_collecting := False\<rparr>, snd s)
      else if duration_elapsed duration now start_time then
        Some (Exited, trace, (fst s)\<lparr>is_collecting := False\<rparr>, snd s)
      else
        (case tick (api_at w k now) now s of (data, dc', m') \<Rightarrow>
           if interval < 0 then Some (Crashed, trace @ [data], dc', m')
           else collection_loop fuel w interval duration start_time (Suc k)
                  (now + interval + latency_at w k) (trace @ [data]) (dc', m')))"

subsection \<open>\<^verbatim>\<open>AppPerformanceMonitor\<close>\<close>

record alert =
  alert_timestamp :: real
  alert_metric :: string
  alert_value :: real
  alert_threshold :: real
  alert_message :: string

text \<open>The four configured thresholds, \<^verbatim>\<open>alert.cpu_threshold\<close> and so on, with the
  defaults of \<^verbatim>\<open>config.py\<close>.\<close>

record alert_config =
  cpu_threshold :: real
  memory_threshold :: real
  fps_threshold :: real
  battery_temp_threshold :: real

definition default_alert_config :: alert_config where
  "default_alert_config =
     \<lparr>cpu_threshold = 80, memory_threshold = 80, fps_threshold = 30,
      battery_temp_threshold = 45\<rparr>"

record monitor =
  is_monitoring :: bool
  start_time :: real
  performance_data :: "performance_data list"
  alerts :: "alert list"

definition new_monitor :: monitor where
  "new_monitor = \<lparr>is_monitoring = False, start_time = 0, performance_data = [], alerts = []\<rparr>"

text \<open>\<^verbatim>\<open>str.upper\<close> on ASCII.\<close>

definition upper_char :: "char \<Rightarrow> char" where
  "upper_char c =
     (case map_of (zip ''abcdefghijklmnopqrstuvwxyz'' ''ABCDEFGHIJKLMNOPQRSTUVWXYZ'') c of
        None \<Rightarrow> c
      | Some u \<Rightarrow> u)"

definition upper :: "string \<Rightarrow> string" where
  "upper s = map upper_char s"

definition thresholds :: "alert_config \<Rightarrow> (string \<times> real) list" where
  "thresholds cfg =
     [(''cpu'', cpu_threshold cfg),
      (''memory'', memory_threshold cfg),
      (''fps'', fps_threshold cfg),
      (''battery_temp'', battery_temp_threshold cfg)]"

definition alert_text :: "runtime \<Rightarrow> string \<Rightarrow> real \<Rightarrow> real \<Rightarrow> string" where
  "alert_text rt metric v threshold =
     upper metric @ '' '' @ (if metric = ''fps'' then ''below'' else ''above'')
       @ '' threshold: '' @ py_str rt v @ '' ''
       @ (if metric = ''fps'' then ''<'' else ''>'') @ '' '' @ py_str rt threshold"

text \<open>\<^verbatim>\<open>_check_alert\<close>; \<open>now\<close> is the clock's reading that stamps the alert.\<close>

definition check_alert ::
  "runtime \<Rightarrow> alert_config \<Rightarrow> real \<Rightarrow> string \<Rightarrow> real \<Rightarrow> monitor \<Rightarrow> monitor" where
  "check_alert rt cfg now metric v mon =
     (case map_of (thresholds cfg) metric of
        None \<Rightarrow> mon
      | Some threshold \<Rightarrow>
          let is_alert = (if metric = ''fps'' then v < threshold else v > threshold)
          in if is_alert then
               mon\<lparr>alerts := alerts mon @
                  [\<lparr>alert_timestamp = now, alert_metric = metric, alert_value = v,
                    alert_threshold = threshold,
                    alert_message = alert_text rt metric v threshold\<rparr>]\<rparr>
             else mon)"

text \<open>
  The single-metric calls of the monitor. \<open>dco\<close> is \<^verbatim>\<open>self.collector\<close>, the
  \<^verbatim>\<open>DataCollector\<close> or \<^verbatim>\<open>None\<close>. A value that is no number makes the comparison in
  \<^verbatim>\<open>_check_alert\<close> raise \<^verbatim>\<open>TypeError\<close>, which nothing catches.
\<close>

definition metric_with_alert ::
  "runtime \<Rightarrow> alert_config \<Rightarrow> 'c collector_api \<Rightarrow> real \<Rightarrow> string \<Rightarrow> string
     \<Rightarrow> ('c, 'm) data_collector option \<Rightarrow> monitor
     \<Rightarrow> exn + (real \<times> ('c, 'm) data_collector option \<times> monitor)" where
  "metric_with_alert rt cfg api now target metric dco mon =
     (case dco of
        None \<Rightarrow> Inr (0, None, mon)
      | Some dc \<Rightarrow>
          (case collect_single api target dc of
             (Inl e, dc') \<Rightarrow> Inl e
           | (Inr PNone, dc') \<Rightarrow> Inr (0, Some dc', check_alert rt cfg now metric 0 mon)
           | (Inr (PFloat v), dc') \<Rightarrow> Inr (v, Some dc', check_alert rt cfg now metric v mon)
           | (Inr (PInt i), dc') \<Rightarrow>
               Inr (real_of_int i, Some dc', check_alert rt cfg now metric (real_of_int i) mon)
           | (Inr _, dc') \<Rightarrow> Inl (TypeError ''comparison'')))"

definition apm_collect_cpu ::
  "runtime \<Rightarrow> alert_config \<Rightarrow> 'c collector_api \<Rightarrow> real
     \<Rightarrow> ('c, 'm) data_collector option \<Rightarrow> monitor
     \<Rightarrow> exn + (real \<times> ('c, 'm) data_collector option \<times> monitor)" where
  "apm_collect_cpu rt cfg api now dco mon =
     metric_with_alert rt cfg api now ''cpu'' ''cpu'' dco mon"

definition apm_collect_memory ::
  "runtime \<Rightarrow> alert_config \<Rightarrow> 'c collector_api \<Rightarrow> real
     \<Rightarrow> ('c, 'm) data_collector option \<Rightarrow> monitor
     \<Rightarrow> exn + (real \<times> ('c, 'm) data_collector option \<times> monitor)" where
  "apm_collect_memory rt cfg api now dco mon =
     metric_with_alert rt cfg api now ''memory'' ''memory'' dco mon"

definition apm_collect_fps ::
  "runtime \<Rightarrow> alert_config \<Rightarrow> 'c collector_api \<Rightarrow> real
     \<Rightarrow> ('c, 'm) data_collector option \<Rightarrow> monitor
     \<Rightarrow> exn + (real \<times> ('c, 'm) data_collector option \<times> monitor)" where
  "apm_collect_fps rt cfg api now dco mon =
     metric_with_alert rt cfg api now ''fps'' ''fps'' dco mon"

text \<open>\<^verbatim>\<open>_on_data_collected\<close>, the callback the monitor registers before it starts
  the loop: it stores the sample (and prints every tenth).\<close>

definition on_data_collected :: "performance_data \<Rightarrow> monitor \<Rightarrow> monitor" where
  "on_data_collected data mon = mon\<lparr>performance_data := performance_data mon @ [data]\<rparr>"

paragraph \<open>\<^verbatim>\<open>_calculate_stats\<close> and \<^verbatim>\<open>get_summary\<close>\<close>

record stats =
  stat_min :: real
  stat_max :: real
  stat_avg :: real
  stat_count :: nat

definition calculate_stats :: "real list \<Rightarrow> stats" where
  "calculate_stats values =
     (if values = [] then
        \<lparr>stat_min = 0, stat_max = 0, stat_avg = 0, stat_count = 0\<rparr>
      else
        \<lparr>stat_min = py_min values,
         stat_max = py_max values,
         stat_avg = sum_list values / real (length values),
         stat_count = length values\<rparr>)"

definition cpu_values :: "monitor \<Rightarrow> real list" where
  "cpu_values mon = [cpu_usage d. d \<leftarrow> performance_data mon, cpu_usage d > 0]"

definition memory_values :: "monitor \<Rightarrow> real list" where
  "memory_values mon = [memory_usage d. d \<leftarrow> performance_data mon, memory_usage d > 0]"

definition fps_values :: "monitor \<Rightarrow> real list" where
  "fps_values mon = [fps d. d \<leftarrow> performance_data mon, fps d > 0]"

text \<open>The summary without its \<^verbatim>\<open>device\<close> and \<^verbatim>\<open>package_name\<close> entries, which copy
  what the monitor was built with. \<open>None\<close> is the empty dictionary returned when
  there is no sample.\<close>

record summary =
  sum_duration :: real
  data_points :: nat
  alerts_count :: nat
  cpu_stats :: stats
  memory_stats :: stats
  fps_stats :: stats

definition get_summary :: "real \<Rightarrow> monitor \<Rightarrow> summary option" where
  "get_summary now mon =
     (if performance_data mon = [] then None
      else
        Some \<lparr>sum_duration = (if start_time mon \<noteq> 0 then now - start_time mon else 0),
              data_points = length (performance_data mon),
              alerts_count = length (alerts mon),
              cpu_stats = calculate_stats (cpu_values mon),
              memory_stats = calculate_stats (memory_values mon),
              fps_stats = calculate_stats (fps_values mon)\<rparr>)"

subsection \<open>Concrete inputs\<close>

text \<open>A sample with the given CPU, memory and FPS readings.\<close>

definition sample_with :: "real \<Rightarrow> real \<Rightarrow> real \<Rightarrow> performance_data" where
  "sample_with c m f = (new_performance_data 0)\<lparr>cpu_usage := c, memory_usage := m, fps := f\<rparr>"

definition summary_example :: monitor where
  "summary_example =
     new_monitor\<lparr>performance_data :=
       [sample_with 0 120 0, sample_with 40 0 60, sample_with 60 80 30]\<rparr>"

text \<open>A runtime for the examples: \<^verbatim>\<open>int\<close> and \<^verbatim>\<open>float\<close> on plain decimal numerals,
  \<^verbatim>\<open>str\<close> on the numbers the examples print.\<close>

definition digit_val :: "char \<Rightarrow> nat" where
  "digit_val c =
     (case map_of (zip ''0123456789'' [0, 1, 2, 3, 4, 5, 6, 7, 8, 9]) c of
        None \<Rightarrow> 0
      | Some d \<Rightarrow> d)"

definition dec_nat :: "string \<Rightarrow> nat" where
  "dec_nat s = foldl (\<lambda>n c. 10 * n + digit_val c) 0 s"

definition dec_int :: "string \<Rightarrow> int option" where
  "dec_int s = (if isdigit s then Some (int (dec_nat s)) else None)"

definition dec_float :: "string \<Rightarrow> real option" where
  "dec_float s =
     (case split_on CHR ''.'' s of
        [a] \<Rightarrow> (if isdigit a then Some (real (dec_nat a)) else None)
      | [a, b] \<Rightarrow>
          (if isdigit a \<and> isdigit b
           then Some (real (dec_nat a) + real (dec_nat b) / 10 ^ length b)
           else None)
      | _ \<Rightarrow> None)"

definition show_example :: "real \<Rightarrow> string" where
  "show_example x =
     (if x = 0 then ''0.0'' else if x = 30 then ''30.0''
      else if x = 80 then ''80.0'' else if x = 95 then ''95.0'' else ''?'')"

definition example_runtime :: runtime where
  "example_runtime = \<lparr>py_int = dec_int, py_float = dec_float, py_str = show_example\<rparr>"

text \<open>A device that answers no command: every call of \<^verbatim>\<open>execute_adb\<close> raises.\<close>

definition dead_device :: device where
  "dead_device = (\<lambda>command. None)"

definition fresh_collector :: "(android_collector, monitor) data_collector" where
  "fresh_collector =
     new_data_collector default_buffer_size (new_android_collector ''com.example.app'')"

text \<open>A device that answers \<^verbatim>\<open>cat /proc/stat\<close> with the given first line.\<close>

definition stat_device :: "string \<Rightarrow> device" where
  "stat_device line =
     (\<lambda>command. if command = ''shell cat /proc/stat''
                 then Some (line @ [newline] @ ''intr 5 0 0'') else None)"

text \<open>A device on which process 1234 runs under uid 10123 and the uid's traffic
  statistics are the given line.\<close>

definition net_device :: "string \<Rightarrow> device" where
  "net_device line =
     (\<lambda>command.
        if command = ''shell cat /proc/1234/status''
        then Some (''Name: app'' @ [newline] @ ''Uid: 10123 10123 10123 10123'')
        else if command = ''shell cat /proc/net/xt_qtaguid/stats | grep 10123''
        then Some line
        else None)"

text \<open>A collector that knows its process and has a network baseline of 2048 bytes
  received and 4096 sent at time 10.\<close>

definition net_collector :: android_collector where
  "net_collector =
     \<lparr>package_name = ''com.example.app'', pid = Some ''1234'',
      last_network_data = Some \<lparr>rx_bytes = 2048, tx_bytes = 4096, timestamp = 10\<rparr>,
      last_cpu_data = None\<rparr>"

text \<open>The text of the given lines, and a device that answers
  \<^verbatim>\<open>dumpsys gfxinfo com.example.app\<close> with it.\<close>

definition gfx_text :: "string list \<Rightarrow> string" where
  "gfx_text lines = concat (map (\<lambda>l. l @ [newline]) lines)"

definition gfx_device :: "string list \<Rightarrow> device" where
  "gfx_device lines =
     (\<lambda>command. if command = ''shell dumpsys gfxinfo com.example.app''
                 then Some (gfx_text lines) else None)"

text \<open>Three durations among lines that give none.\<close>

definition gfx_lines :: "string list" where
  "gfx_lines =
     [''Stats since: 7'', ''12.0'', ''Total frames rendered: 5'', ''20.0 3'', ''10'', ''0'',
      ''n/a'', '''', ''  30.0'']"

text \<open>130 durations: 70 of 10 ms, then 60 of 20 ms.\<close>

definition gfx_long_lines :: "string list" where
  "gfx_long_lines =
     [''Stats since: 7'', ''12.0'', ''Total frames rendered: 130'']
       @ replicate 70 ''10'' @ replicate 60 ''20.0''"

text \<open>One duration of 10 ms, which is 100 frames per second.\<close>

definition gfx_fast_lines :: "string list" where
  "gfx_fast_lines = [''Total frames rendered: 1'', ''10'']"

text \<open>A world in which the device answers nothing, no iteration takes longer than its
  sleep, and the control plane clears the flag before iteration \<open>n\<close>.\<close>

definition quiet_world :: "nat \<Rightarrow> android_collector world" where
  "quiet_world n =
     \<lparr>api_at = (\<lambda>k now. android_api example_runtime dead_device now),
      latency_at = (\<lambda>k. 0),
      stop_at = (\<lambda>k. n \<le> k)\<rparr>"

text \<open>A collector with room for two samples, with the monitor's callback registered,
  started without a duration.\<close>

definition small_collector :: "(android_collector, monitor) data_collector" where
  "small_collector =
     start_continuous_collection 1 None
       (add_callback on_data_collected
          (new_data_collector 2 (new_android_collector ''com.example.app'')))"

text \<open>The sample assembled at time \<open>t\<close> when the device answers nothing.\<close>

definition idle_sample :: "real \<Rightarrow> performance_data" where
  "idle_sample t = (new_performance_data t)\<lparr>network_usage := neutral_network\<rparr>"

text \<open>A device on which the application runs as process 1234 and \<^verbatim>\<open>top\<close> reports 95%
  CPU for it; and the world in which the loop meets this device.\<close>

definition hot_device :: device where
  "hot_device =
     (\<lambda>command.
        if command = ''shell pidof com.example.app'' then Some ''1234''
        else if command = ''shell top -p 1234 -n 1''
        then Some (''  PID USER PR NI CPU% S #THR VSS RSS PCY Name'' @ [newline]
                   @ '' 1234 u0_a99 10 -10 95% S 40 1200000K 250000K fg com.example.app'')
        else None)"

definition hot_world :: "nat \<Rightarrow> android_collector world" where
  "hot_world n =
     \<lparr>api_at = (\<lambda>k now. android_api example_runtime hot_device now),
      latency_at = (\<lambda>k. 0),
      stop_at = (\<lambda>k. n \<le> k)\<rparr>"

text \<open>The collector as \<^verbatim>\<open>AppPerformanceMonitor.collect_all\<close> starts it: default
  capacity, the monitor's callback registered.\<close>

definition monitored_collector :: "(android_collector, monitor) data_collector" where
  "monitored_collector =
     start_continuous_collection 1 None (add_callback on_data_collected fresh_collector)"

section \<open>Properties\<close>

subsection \<open>Statistics and summary\<close>

lemma fold_min_Min: "fold min xs (a::real) = Min (insert a (set xs))"
proof (induction xs arbitrary: a)
  case Nil
  show ?case by simp
next
  case (Cons x xs)
  have "Min (insert (min x a) (set xs)) = Min (insert a (insert x (set xs)))"
  proof (cases "set xs = {}")
    case True
    then show ?thesis by (simp add: min.commute)
  next
    case False
    then show ?thesis
      by (simp add: min.assoc min.left_commute min.commute)
  qed
  with Cons.IH [of "min x a"] show ?case by simp
qed

lemma fold_max_Max: "fold max xs (a::real) = Max (insert a (set xs))"
proof (induction xs arbitrary: a)
  case Nil
  show ?case by simp
next
  case (Cons x xs)
  have "Max (insert (max x a) (set xs)) = Max (insert a (insert x (set xs)))"
  proof (cases "set xs = {}")
    case True
    then show ?thesis by (simp add: max.commute)
  next
    case False
    then show ?thesis
      by (simp add: max.assoc max.left_commute max.commute)
  qed
  with Cons.IH [of "max x a"] show ?case by simp
qed

lemma py_min_Min: "values \<noteq> [] \<Longrightarrow> py_min values = Min (set values)"
  by (cases "values") (simp_all add: py_min_def fold_min_Min)

lemma py_max_Max: "values \<noteq> [] \<Longrightarrow> py_max values = Max (set values)"
  by (cases "values") (simp_all add: py_max_def fold_max_Max)

lemma positive_series:
  "[f d. d \<leftarrow> ds, f d > (0::real)] = filter (\<lambda>v. 0 < v) (map f ds)"
  by (induction ds) simp_all

text \<open>
  C7. \<^verbatim>\<open>_calculate_stats\<close> returns all zeros with count 0 on the empty list and the
  minimum, maximum, arithmetic mean and length of a non-empty list. \<^verbatim>\<open>get_summary\<close>
  aggregates the CPU, memory and FPS readings of the samples that are greater than 0,
  so a reading equal to the sentinel 0 never enters a series.
\<close>

theorem stats_and_summary:
  "calculate_stats [] = \<lparr>stat_min = 0, stat_max = 0, stat_avg = 0, stat_count = 0\<rparr>
   \<and> (values \<noteq> [] \<longrightarrow>
        calculate_stats values =
          \<lparr>stat_min = Min (set values), stat_max = Max (set values),
           stat_avg = sum_list values / real (length values),
           stat_count = length values\<rparr>)
   \<and> (performance_data mon \<noteq> [] \<longrightarrow>
        (\<exists>sm. get_summary now mon = Some sm
           \<and> cpu_stats sm = calculate_stats (cpu_values mon)
           \<and> memory_stats sm = calculate_stats (memory_values mon)
           \<and> fps_stats sm = calculate_stats (fps_values mon)))
   \<and> cpu_values mon = filter (\<lambda>v. 0 < v) (map cpu_usage (performance_data mon))
   \<and> memory_values mon = filter (\<lambda>v. 0 < v) (map memory_usage (performance_data mon))
   \<and> fps_values mon = filter (\<lambda>v. 0 < v) (map fps (performance_data mon))
   \<and> 0 \<notin> set (cpu_values mon) \<and> 0 \<notin> set (memory_values mon) \<and> 0 \<notin> set (fps_values mon)"
proof -
  have a: "calculate_stats [] = \<lparr>stat_min = 0, stat_max = 0, stat_avg = 0, stat_count = 0\<rparr>"
    by (simp add: calculate_stats_def)
  have b: "values \<noteq> [] \<longrightarrow>
        calculate_stats values =
          \<lparr>stat_min = Min (set values), stat_max = Max (set values),
           stat_avg = sum_list values / real (length values),
           stat_count = length values\<rparr>"
    by (simp add: calculate_stats_def py_min_Min py_max_Max)
  have c: "performance_data mon \<noteq> [] \<longrightarrow>
        (\<exists>sm. get_summary now mon = Some sm
           \<and> cpu_stats sm = calculate_stats (cpu_values mon)
           \<and> memory_stats sm = calculate_stats (memory_values mon)
           \<and> fps_stats sm = calculate_stats (fps_values mon))"
    by (simp add: get_summary_def)
  have d: "cpu_values mon = filter (\<lambda>v. 0 < v) (map cpu_usage (performance_data mon))"
    by (simp add: cpu_values_def positive_series)
  have e: "memory_values mon = filter (\<lambda>v. 0 < v) (map memory_usage (performance_data mon))"
    by (simp add: memory_values_def positive_series)
  have f: "fps_values mon = filter (\<lambda>v. 0 < v) (map fps (performance_data mon))"
    by (simp add: fps_values_def positive_series)
  have g: "0 \<notin> set (cpu_values mon) \<and> 0 \<notin> set (memory_values mon) \<and> 0 \<notin> set (fps_values mon)"
    by (simp add: d e f)
  from a b c d e f g show ?thesis by blast
qed

theorem stats_and_summary_witness:
  "calculate_stats [10, 20, 30] = \<lparr>stat_min = 10, stat_max = 30, stat_avg = 20, stat_count = 3\<rparr>
   \<and> map_option cpu_stats (get_summary 5 summary_example)
       = Some \<lparr>stat_min = 40, stat_max = 60, stat_avg = 50, stat_count = 2\<rparr>
   \<and> cpu_values summary_example = [40, 60]
   \<and> memory_values summary_example = [120, 80]
   \<and> fps_values summary_example = [60, 30]"
proof -
  have v: "[10, 20, 30::real] \<noteq> []" by simp
  have p: "performance_data summary_example \<noteq> []"
    by (simp add: summary_example_def new_monitor_def)
  have s: "cpu_values summary_example = [40, 60] \<and> memory_values summary_example = [120, 80]
    \<and> fps_values summary_example = [60, 30]"
    by (simp add: cpu_values_def memory_values_def fps_values_def summary_example_def
        new_monitor_def sample_with_def new_performance_data_def)
  note T = stats_and_summary [of "[10, 20, 30]" summary_example 5]
  from T v have c: "calculate_stats [10, 20, 30]
      = \<lparr>stat_min = 10, stat_max = 30, stat_avg = 20, stat_count = 3\<rparr>"
    by simp
  from T p obtain sm where sm: "get_summary 5 summary_example = Some sm"
    "cpu_stats sm = calculate_stats (cpu_values summary_example)"
    by blast
  have "calculate_stats [40, 60] = \<lparr>stat_min = 40, stat_max = 60, stat_avg = 50, stat_count = 2\<rparr>"
    by (simp add: calculate_stats_def py_min_def py_max_def)
  with sm s have "map_option cpu_stats (get_summary 5 summary_example)
       = Some \<lparr>stat_min = 40, stat_max = 60, stat_avg = 50, stat_count = 2\<rparr>"
    by simp
  with c s show ?thesis by simp
qed

subsection \<open>Starting and stopping\<close>

text \<open>
  C9. \<^verbatim>\<open>start_continuous_collection\<close> on a collector that is collecting changes
  nothing: no thread object is created. \<^verbatim>\<open>stop_continuous_collection\<close> applied twice
  leaves the state the first call left, and applied to an idle collector it changes
  nothing; it has no raising branch.
\<close>

theorem start_stop_idempotent:
  "(is_collecting dc \<longrightarrow> start_continuous_collection interval duration dc = dc)
   \<and> stop_continuous_collection (stop_continuous_collection dc) = stop_continuous_collection dc
   \<and> (\<not> is_collecting dc \<longrightarrow> stop_continuous_collection dc = dc)"
  by (simp add: start_continuous_collection_def stop_continuous_collection_def)

theorem start_stop_idempotent_witness:
  "start_continuous_collection 2 (Some 5) (start_continuous_collection 1 None fresh_collector)
     = start_continuous_collection 1 None fresh_collector
   \<and> stop_continuous_collection
        (stop_continuous_collection (start_continuous_collection 1 None fresh_collector))
     = stop_continuous_collection (start_continuous_collection 1 None fresh_collector)
   \<and> stop_continuous_collection fresh_collector = fresh_collector"
proof -
  have r: "is_collecting (start_continuous_collection 1 None fresh_collector)"
    by (simp add: start_continuous_collection_def fresh_collector_def new_data_collector_def)
  have i: "\<not> is_collecting fresh_collector"
    by (simp add: fresh_collector_def new_data_collector_def)
  from start_stop_idempotent [of "start_continuous_collection 1 None fresh_collector" 2 "Some 5"] r
    start_stop_idempotent [of fresh_collector 2 "Some 5"] i
  show ?thesis by simp
qed

subsection \<open>Unknown targets\<close>

lemma collect_single_never_raises: "\<exists>v. fst (collect_single api target dc) = Inr v"
  by (simp add: collect_single_def split: prod.splits sum.splits)

text \<open>
  C5, as the code has it. For a target that is none of the eight names, the body of
  \<^verbatim>\<open>collect_single\<close> raises \<^verbatim>\<open>ValueError\<close>, its own handler catches it, and the caller
  gets \<^verbatim>\<open>None\<close> as an ordinary return value; the collector is unchanged.
\<close>

theorem collect_single_unknown_target:
  assumes "target \<notin> set [''cpu'', ''memory'', ''memory_detail'', ''network'', ''fps'',
                          ''battery'', ''gpu'', ''thermal'']"
  shows "collect_single_body api target dc = (Inl (ValueError (''Unknown target: '' @ target)), dc)
         \<and> collect_single api target dc = (Inr PNone, dc)"
  using assms by (simp add: collect_single_def collect_single_body_def)

theorem collect_single_unknown_target_witness:
  "collect_single_body (android_api example_runtime dead_device 0) ''jank'' fresh_collector
     = (Inl (ValueError ''Unknown target: jank''), fresh_collector)
   \<and> collect_single (android_api example_runtime dead_device 0) ''jank'' fresh_collector
     = (Inr PNone, fresh_collector)"
  using collect_single_unknown_target
    [of "''jank''" "android_api example_runtime dead_device 0" fresh_collector]
  by simp

text \<open>The claim as the spec words it, that the error reaches the caller, fails: the
  call returns.\<close>

theorem collect_single_unknown_target_returns_none:
  "fst (collect_single (android_api example_runtime dead_device 0) ''disk'' fresh_collector)
     = Inr PNone"
  by (simp add: collect_single_def collect_single_body_def)

subsection \<open>Alerts of the single-metric calls\<close>

text \<open>
  C10. When \<^verbatim>\<open>collect_single('fps')\<close> yields \<^verbatim>\<open>None\<close> or 0.0 and the FPS threshold is
  positive, \<^verbatim>\<open>AppPerformanceMonitor.collect_fps\<close> returns 0.0 and appends a
  below-threshold alert for the value 0 to the monitor's alerts.
\<close>

theorem fps_sentinel_alert:
  assumes "fst (collect_single api ''fps'' dc) = Inr PNone
           \<or> fst (collect_single api ''fps'' dc) = Inr (PFloat 0)"
      and "0 < fps_threshold cfg"
  shows "apm_collect_fps rt cfg api now (Some dc) mon =
     Inr (0, Some (snd (collect_single api ''fps'' dc)),
          mon\<lparr>alerts := alerts mon @
            [\<lparr>alert_timestamp = now, alert_metric = ''fps'', alert_value = 0,
              alert_threshold = fps_threshold cfg,
              alert_message = ''FPS below threshold: '' @ py_str rt 0 @ '' < ''
                                @ py_str rt (fps_threshold cfg)\<rparr>]\<rparr>)"
proof (cases "collect_single api ''fps'' dc")
  case (Pair r dc')
  with assms show ?thesis
    by (auto simp add: apm_collect_fps_def metric_with_alert_def check_alert_def
        thresholds_def alert_text_def upper_def upper_char_def)
qed

theorem fps_sentinel_alert_witness:
  "apm_collect_fps example_runtime default_alert_config
       (android_api example_runtime dead_device 7) 7 (Some fresh_collector) new_monitor
     = Inr (0, Some fresh_collector,
            new_monitor\<lparr>alerts :=
              [\<lparr>alert_timestamp = 7, alert_metric = ''fps'', alert_value = 0,
                alert_threshold = 30, alert_message = ''FPS below threshold: 0.0 < 30.0''\<rparr>]\<rparr>)"
proof -
  have r: "collect_single (android_api example_runtime dead_device 7) ''fps'' fresh_collector
             = (Inr (PFloat 0), fresh_collector)"
    by (simp add: collect_single_def collect_single_body_def call_method_def android_api_def
        collect_fps_def fresh_collector_def new_data_collector_def new_android_collector_def
        dead_device_def)
  have t: "0 < fps_threshold default_alert_config"
    by (simp add: default_alert_config_def)
  from fps_sentinel_alert [of "android_api example_runtime dead_device 7" fresh_collector
      default_alert_config example_runtime 7 new_monitor] r t
  show ?thesis
    by (simp add: default_alert_config_def example_runtime_def show_example_def new_monitor_def)
qed

subsection \<open>The CPU and network extractors\<close>

lemma get_pid_none: "fst (get_pid dev c) = None \<Longrightarrow> snd (get_pid dev c) = c"
  by (auto simp add: get_pid_def split: option.splits list.splits if_splits)

lemma get_pid_cpu_data:
  "fst (get_pid dev (c\<lparr>last_cpu_data := x\<rparr>)) = fst (get_pid dev c)"
  by (auto simp add: get_pid_def split: option.splits list.splits if_splits)

lemma refresh_pid_none:
  "\<not> pid_set c \<Longrightarrow> fst (get_pid dev c) = None \<Longrightarrow> refresh_pid dev c = c"
  by (simp add: refresh_pid_def get_pid_none)

lemma refresh_pid_set: "pid_set c \<Longrightarrow> refresh_pid dev c = c"
  by (simp add: refresh_pid_def)

text \<open>
  C1. A collector without a process id (none stored, and the lookup finds none) and
  without a CPU baseline reads the counters \<open>(total1, idle1)\<close>: the call returns 0.0
  and only records them. The next call reads \<open>(total2, idle2)\<close> with
  \<open>total1 < total2\<close>: it returns
  \<open>100 * ((total2 - total1) - (idle2 - idle1)) / (total2 - total1)\<close> and records
  \<open>(total2, idle2)\<close>.
\<close>

theorem cpu_global_two_samples:
  assumes nopid: "\<not> pid_set c"
      and g1: "fst (get_pid dev1 c) = None"
      and g2: "fst (get_pid dev2 c) = None"
      and first: "last_cpu_data c = None"
      and s1: "read_proc_stat rt dev1 = Some (total1, idle1)"
      and s2: "read_proc_stat rt dev2 = Some (total2, idle2)"
      and adv: "total1 < total2"
  shows "collect_cpu rt dev1 c = (0, c\<lparr>last_cpu_data := Some (total1, idle1)\<rparr>)
     \<and> collect_cpu rt dev2 (c\<lparr>last_cpu_data := Some (total1, idle1)\<rparr>)
         = (100 * real_of_int ((total2 - total1) - (idle2 - idle1)) / real_of_int (total2 - total1),
            c\<lparr>last_cpu_data := Some (total2, idle2)\<rparr>)"
proof -
  have a: "collect_cpu rt dev1 c = (0, c\<lparr>last_cpu_data := Some (total1, idle1)\<rparr>)"
    using nopid g1 first s1 by (simp add: collect_cpu_def refresh_pid_none)
  let ?c1 = "c\<lparr>last_cpu_data := Some (total1, idle1)\<rparr>"
  have p: "\<not> pid_set ?c1" using nopid by (simp add: pid_set_def)
  have g: "fst (get_pid dev2 ?c1) = None" using g2 by (simp add: get_pid_cpu_data)
  have b: "collect_cpu rt dev2 ?c1
         = (100 * real_of_int ((total2 - total1) - (idle2 - idle1)) / real_of_int (total2 - total1),
            c\<lparr>last_cpu_data := Some (total2, idle2)\<rparr>)"
    using p g s2 adv by (simp add: collect_cpu_def refresh_pid_none)
  from a b show ?thesis by simp
qed

lemma stat_device_first: "read_proc_stat example_runtime (stat_device ''cpu  30 20 40 10'') = Some (100, 10)"
  by code_simp

lemma stat_device_second: "read_proc_stat example_runtime (stat_device ''cpu  60 40 80 20'') = Some (200, 20)"
  by code_simp

lemma no_package_no_pid:
  "\<not> pid_set (new_android_collector []) \<and> fst (get_pid dev (new_android_collector [])) = None
   \<and> last_cpu_data (new_android_collector []) = None"
  by (simp add: pid_set_def get_pid_def new_android_collector_def)

theorem cpu_global_two_samples_witness:
  "collect_cpu example_runtime (stat_device ''cpu  30 20 40 10'') (new_android_collector [])
     = (0, (new_android_collector [])\<lparr>last_cpu_data := Some (100, 10)\<rparr>)
   \<and> collect_cpu example_runtime (stat_device ''cpu  60 40 80 20'')
        ((new_android_collector [])\<lparr>last_cpu_data := Some (100, 10)\<rparr>)
     = (90, (new_android_collector [])\<lparr>last_cpu_data := Some (200, 20)\<rparr>)"
proof -
  have adv: "(100::int) < 200" by simp
  from cpu_global_two_samples [of "new_android_collector []" "stat_device ''cpu  30 20 40 10''"
      "stat_device ''cpu  60 40 80 20''" example_runtime 100 10 200 20]
    no_package_no_pid stat_device_first stat_device_second adv
  show ?thesis by simp
qed

text \<open>
  C2, as the code has it. The CPU extractor guards the total tick counter: when the
  new total does not exceed the baseline it returns 0.0 and puts the new reading in
  the baseline's place. The network extractor guards the clock only: when the new
  timestamp is not later than the baseline's it returns the neutral value and resets
  the baseline; when it is later, the speeds are the counter differences over the
  elapsed time over 1024, whatever their sign. The divisor is positive in both.
\<close>

theorem regression_handling:
  assumes "\<not> pid_set c" and "fst (get_pid dev c) = None"
      and "last_cpu_data c = Some (total1, idle1)"
      and "read_proc_stat rt dev = Some (total2, idle2)"
      and "pid_set c'" and "last_network_data c' = Some prev"
      and "read_net_counters rt dev' (the_pid c') = Some (rx, tx)"
  shows "(total2 \<le> total1 \<longrightarrow>
            collect_cpu rt dev c = (0, c\<lparr>last_cpu_data := Some (total2, idle2)\<rparr>))
       \<and> (now \<le> timestamp prev \<longrightarrow>
            collect_network rt dev' now c'
              = (neutral_network,
                 c'\<lparr>last_network_data :=
                      Some \<lparr>rx_bytes = rx, tx_bytes = tx, timestamp = now\<rparr>\<rparr>))
       \<and> (timestamp prev < now \<longrightarrow>
            collect_network rt dev' now c'
              = ([(''rx_speed'',
                     PFloat (real_of_int (rx - rx_bytes prev) / (now - timestamp prev) / 1024)),
                  (''tx_speed'',
                     PFloat (real_of_int (tx - tx_bytes prev) / (now - timestamp prev) / 1024)),
                  (''rx_total'', PFloat (real_of_int rx / 1024)),
                  (''tx_total'', PFloat (real_of_int tx / 1024))],
                 c'\<lparr>last_network_data :=
                      Some \<lparr>rx_bytes = rx, tx_bytes = tx, timestamp = now\<rparr>\<rparr>))"
  using assms
  by (simp add: collect_cpu_def collect_network_def refresh_pid_none refresh_pid_set)

lemma stat_device_reset: "read_proc_stat example_runtime (stat_device ''cpu  3 2 4 1'') = Some (10, 1)"
  by code_simp

lemma net_device_counters:
  "read_net_counters example_runtime (net_device ''2 wlan0 0x0 10123 0 4096 10 8192 12'')
     (the_pid net_collector) = Some (4096, 8192)"
  by code_simp

lemma net_collector_state:
  "pid_set net_collector
   \<and> last_network_data net_collector = Some \<lparr>rx_bytes = 2048, tx_bytes = 4096, timestamp = 10\<rparr>"
  by (simp add: pid_set_def net_collector_def)

theorem regression_handling_witness:
  "collect_cpu example_runtime (stat_device ''cpu  3 2 4 1'')
       ((new_android_collector [])\<lparr>last_cpu_data := Some (100, 10)\<rparr>)
     = (0, (new_android_collector [])\<lparr>last_cpu_data := Some (10, 1)\<rparr>)
   \<and> collect_network example_runtime (net_device ''2 wlan0 0x0 10123 0 4096 10 8192 12'') 9
        net_collector
     = (neutral_network,
        net_collector\<lparr>last_network_data :=
          Some \<lparr>rx_bytes = 4096, tx_bytes = 8192, timestamp = 9\<rparr>\<rparr>)
   \<and> collect_network example_runtime (net_device ''2 wlan0 0x0 10123 0 4096 10 8192 12'') 12
        net_collector
     = ([(''rx_speed'', PFloat 1), (''tx_speed'', PFloat 2),
         (''rx_total'', PFloat 4), (''tx_total'', PFloat 8)],
        net_collector\<lparr>last_network_data :=
          Some \<lparr>rx_bytes = 4096, tx_bytes = 8192, timestamp = 12\<rparr>\<rparr>)"
proof -
  let ?c = "(new_android_collector [])\<lparr>last_cpu_data := Some (100, 10)\<rparr>"
  let ?d = "net_device ''2 wlan0 0x0 10123 0 4096 10 8192 12''"
  have c: "\<not> pid_set ?c" "fst (get_pid (stat_device ''cpu  3 2 4 1'') ?c) = None"
    "last_cpu_data ?c = Some (100, 10)"
    by (simp_all add: pid_set_def get_pid_def new_android_collector_def)
  note T = regression_handling [of ?c "stat_device ''cpu  3 2 4 1''" 100 10 example_runtime
      10 1 net_collector _ ?d 4096 8192, OF c stat_device_reset
      conjunct1 [OF net_collector_state] conjunct2 [OF net_collector_state] net_device_counters]
  from T [of 9] T [of 12] show ?thesis by simp
qed

text \<open>The claim as the spec words it fails for the network counters: with the
  baseline of 2048 bytes received at time 10, a reading of 1024 bytes at time 11 gives
  a receive speed of \<open>-1\<close> KB/s.\<close>

theorem network_regression_negative:
  "collect_network example_runtime (net_device ''2 wlan0 0x0 10123 0 1024 10 4096 12'') 11
       net_collector
     = ([(''rx_speed'', PFloat (- 1)), (''tx_speed'', PFloat 0),
         (''rx_total'', PFloat 1), (''tx_total'', PFloat 4)],
        net_collector\<lparr>last_network_data :=
          Some \<lparr>rx_bytes = 1024, tx_bytes = 4096, timestamp = 11\<rparr>\<rparr>)"
  by code_simp

subsection \<open>The FPS extractor\<close>

lemma scan_frames_invariant:
  "(\<forall>t\<in>set ft. 0 < t) \<and> length ft < 120
   \<Longrightarrow> (\<forall>t\<in>set (scan_frames rt b ft lines). 0 < t) \<and> length (scan_frames rt b ft lines) \<le> 120"
proof (induction lines arbitrary: b ft)
  case Nil
  then show ?case by simp
next
  case (Cons line lines)
  note inv = Cons.prems
  show ?case
  proof (cases "contains ''Total frames rendered:'' line")
    case True
    with Cons.IH [OF inv, of True] show ?thesis by simp
  next
    case marker: False
    show ?thesis
    proof (cases "b \<and> strip line \<noteq> []")
      case False
      with marker inv Cons.IH [OF inv, of b] show ?thesis by auto
    next
      case stats: True
      show ?thesis
      proof (cases "split_ws (strip line)")
        case Nil
        with marker stats Cons.IH [OF inv, of b] show ?thesis by simp
      next
        case (Cons w ws)
        show ?thesis
        proof (cases "py_float rt w")
          case None
          with marker stats Cons Cons.IH [OF inv, of b] show ?thesis by simp
        next
          case (Some v)
          show ?thesis
          proof (cases "0 < v")
            case False
            with marker stats Cons Some inv Cons.IH [OF inv, of b] show ?thesis by simp
          next
            case pos: True
            show ?thesis
            proof (cases "120 \<le> length (ft @ [v])")
              case True
              with marker stats Cons Some pos inv show ?thesis by auto
            next
              case False
              with inv pos have "(\<forall>t\<in>set (ft @ [v]). 0 < t) \<and> length (ft @ [v]) < 120"
                by auto
              from Cons.IH [OF this, of b] marker stats Cons Some pos False
              show ?thesis by simp
            qed
          qed
        qed
      qed
    qed
  qed
qed

lemma mean_positive:
  assumes "xs \<noteq> []" and "\<forall>t\<in>set xs. (0::real) < t"
  shows "0 < sum_list xs / real (length xs)"
proof -
  from assms have "0 < sum_list xs"
    by (induction xs) (auto intro: add_pos_nonneg sum_list_nonneg less_imp_le)
  with assms(1) show ?thesis by simp
qed

lemma last_n_keeps:
  "xs \<noteq> [] \<Longrightarrow> 0 < n \<Longrightarrow> last_n n xs \<noteq> []"
  by (cases xs) (auto simp add: last_n_def)

lemma last_n_set: "set (last_n n xs) \<subseteq> set xs"
  by (simp add: last_n_def set_drop_subset)

lemma fps_of_positive:
  assumes "ft \<noteq> []" and "\<forall>t\<in>set ft. 0 < t"
  shows "fps_of_frame_times ft
     = min (1000 / (sum_list (last_n 60 ft) / real (length (last_n 60 ft)))) 60"
proof -
  have ne: "last_n 60 ft \<noteq> []" using assms(1) by (simp add: last_n_keeps)
  have "\<forall>t\<in>set (last_n 60 ft). 0 < t" using assms(2) last_n_set [of 60 ft] by auto
  with ne have "0 < sum_list (last_n 60 ft) / real (length (last_n 60 ft))"
    by (rule mean_positive)
  with assms(1) show ?thesis by (simp add: fps_of_frame_times_def Let_def)
qed

lemma collect_fps_unavailable:
  "package_name c = [] \<or> dev (''shell dumpsys gfxinfo '' @ package_name c) = None
   \<Longrightarrow> collect_fps rt dev c = 0"
  by (auto simp add: collect_fps_def)

lemma split_ws_acc_spaces:
  "list_all is_space ws \<Longrightarrow> split_ws_acc cur ws = (if cur = [] then [] else [cur])"
  by (induction ws arbitrary: cur) auto

lemma split_ws_acc_trailing:
  "list_all is_space ws \<Longrightarrow> split_ws_acc cur (s @ ws) = split_ws_acc cur s"
  by (induction s arbitrary: cur) (auto simp add: split_ws_acc_spaces)

lemma split_ws_leading: "split_ws (dropWhile is_space s) = split_ws s"
  by (induction s) (auto simp add: split_ws_def)

lemma split_ws_strip: "split_ws (strip s) = split_ws s"
proof -
  let ?t = "dropWhile is_space s"
  have "?t = rev (dropWhile is_space (rev ?t)) @ rev (takeWhile is_space (rev ?t))"
    by (metis rev_append rev_rev_ident takeWhile_dropWhile_id)
  moreover have "list_all is_space (rev (takeWhile is_space (rev ?t)))"
    by (simp add: list_all_iff) (meson set_takeWhileD)
  ultimately have "split_ws ?t = split_ws (rev (dropWhile is_space (rev ?t)))"
    unfolding split_ws_def by (metis split_ws_acc_trailing)
  then show ?thesis by (simp add: strip_def split_ws_leading)
qed

lemma split_ws_acc_empty:
  "split_ws_acc cur s = [] \<longleftrightarrow> cur = [] \<and> list_all is_space s"
  by (induction s arbitrary: cur) auto

lemma dropWhile_all:
  "(\<forall>x\<in>set (dropWhile P s). P x) \<longleftrightarrow> (\<forall>x\<in>set s. P x)"
proof
  assume a: "\<forall>x\<in>set (dropWhile P s). P x"
  have "dropWhile P s = []"
  proof (rule ccontr)
    assume n: "dropWhile P s \<noteq> []"
    then have "\<not> P (hd (dropWhile P s))" by (rule hd_dropWhile)
    moreover from n have "hd (dropWhile P s) \<in> set (dropWhile P s)" by simp
    ultimately show False using a by blast
  qed
  then show "\<forall>x\<in>set s. P x" by simp
next
  assume "\<forall>x\<in>set s. P x"
  then show "\<forall>x\<in>set (dropWhile P s). P x" by (meson set_dropWhileD)
qed

lemma strip_empty: "strip s = [] \<longleftrightarrow> list_all is_space s"
  by (simp add: strip_def list_all_iff dropWhile_all)

lemma strip_empty_split: "strip s = [] \<longleftrightarrow> split_ws s = []"
  by (simp add: strip_empty split_ws_def split_ws_acc_empty)


lemma durations_from_marker:
  "contains ''Total frames rendered:'' line
   \<Longrightarrow> durations_from rt b (line # lines) = durations_from rt True lines"
  by (simp add: durations_from_def)

lemma durations_from_outside:
  "\<not> contains ''Total frames rendered:'' line
   \<Longrightarrow> durations_from rt False (line # lines) = durations_from rt False lines"
  by (simp add: durations_from_def)

lemma durations_from_inside:
  "\<not> contains ''Total frames rendered:'' line
   \<Longrightarrow> durations_from rt True (line # lines)
       = (case frame_duration rt line of
            None \<Rightarrow> durations_from rt True lines
          | Some v \<Rightarrow> v # durations_from rt True lines)"
  by (simp add: durations_from_def split: option.splits)

lemma scan_frames_refines:
  "length ft < 120
   \<Longrightarrow> scan_frames rt b ft lines = take 120 (ft @ durations_from rt b lines)"
proof (induction lines arbitrary: b ft)
  case Nil
  then show ?case by (simp add: durations_from_def)
next
  case (Cons line lines)
  note len = Cons.prems
  show ?case
  proof (cases "contains ''Total frames rendered:'' line")
    case True
    with Cons.IH [OF len, of True] show ?thesis
      by (simp add: durations_from_marker)
  next
    case marker: False
    show ?thesis
    proof (cases b)
      case False
      with marker len Cons.IH [OF len, of False] show ?thesis
        by (simp add: durations_from_outside)
    next
      case stats: True
      show ?thesis
      proof (cases "split_ws line")
        case Nil
        then have "strip line = []" "frame_duration rt line = None"
          by (simp_all add: strip_empty_split frame_duration_def)
        with marker stats len Cons.IH [OF len, of True] show ?thesis
          by (simp add: durations_from_inside)
      next
        case (Cons w ws)
        then have ne: "strip line \<noteq> []" "split_ws (strip line) = w # ws"
          by (simp_all add: strip_empty_split split_ws_strip)
        show ?thesis
        proof (cases "py_float rt w")
          case None
          with Cons have "frame_duration rt line = None" by (simp add: frame_duration_def)
          with marker stats ne None Cons.IH [OF len, of True] show ?thesis
            by (simp add: durations_from_inside)
        next
          case (Some v)
          show ?thesis
          proof (cases "0 < v")
            case False
            with Cons Some have "frame_duration rt line = None" by (simp add: frame_duration_def)
            with marker stats ne Some False len Cons.IH [OF len, of True] show ?thesis
              by (simp add: durations_from_inside)
          next
            case pos: True
            with Cons Some have fd: "frame_duration rt line = Some v"
              by (simp add: frame_duration_def)
            show ?thesis
            proof (cases "120 \<le> length (ft @ [v])")
              case True
              with len have "length ft = 119" by simp
              with marker stats ne Some pos True fd show ?thesis
                by (simp add: durations_from_inside)
            next
              case False
              then have "length (ft @ [v]) < 120" by simp
              from Cons.IH [OF this, of True] marker stats ne Some pos False fd
              show ?thesis by (simp add: durations_from_inside)
            qed
          qed
        qed
      qed
    qed
  qed
qed

lemma scan_frames_durations:
  "scan_frames rt False [] lines = take 120 (frame_durations rt lines)"
  using scan_frames_refines [of "[]" rt False lines]
  by (simp add: durations_from_def frame_durations_def)


text \<open>
  C8. With a package name and an answer from the device, let \<open>ft\<close> be the first 120
  frame-render durations of the answer's text (each the first word of a line after
  the marker line, read as a positive number) and \<open>recent\<close> the last 60 of them (all
  of them when there are fewer). The scan of \<^verbatim>\<open>collect_fps\<close> retains exactly \<open>ft\<close>.
  If \<open>ft\<close> is not empty, \<^verbatim>\<open>collect_fps\<close> returns 1000 over the mean of \<open>recent\<close>,
  capped at 60; if it is empty, it returns 0.0.
\<close>

theorem fps_from_frame_times:
  assumes "package_name c \<noteq> []"
      and "dev (''shell dumpsys gfxinfo '' @ package_name c) = Some output"
      and "ft = take 120 (frame_durations rt (split_on newline output))"
      and "recent = drop (length ft - 60) ft"
  shows "scan_frames rt False [] (split_on newline output) = ft
     \<and> length ft \<le> 120 \<and> length recent = min 60 (length ft)
     \<and> (ft \<noteq> [] \<longrightarrow>
          collect_fps rt dev c = min (1000 / (sum_list recent / real (length recent))) 60)
     \<and> (ft = [] \<longrightarrow> collect_fps rt dev c = 0)"
proof -
  have s: "scan_frames rt False [] (split_on newline output) = ft"
    using assms(3) by (simp add: scan_frames_durations)
  have "(\<forall>t\<in>set ([]::real list). 0 < t) \<and> length ([]::real list) < 120" by simp
  from scan_frames_invariant [OF this, of rt False "split_on newline output"] s
  have p: "\<forall>t\<in>set ft. 0 < t" and l: "length ft \<le> 120" by simp_all
  have r: "recent = last_n 60 ft" using assms(4) by (simp add: last_n_def)
  have c: "collect_fps rt dev c = fps_of_frame_times ft"
    using assms(1,2) s by (simp add: collect_fps_def)
  have n: "length recent = min 60 (length ft)" using assms(4) by auto
  have e: "ft = [] \<longrightarrow> collect_fps rt dev c = 0"
    using c by (simp add: fps_of_frame_times_def)
  have f: "ft \<noteq> [] \<longrightarrow>
      collect_fps rt dev c = min (1000 / (sum_list recent / real (length recent))) 60"
    using c p r by (simp add: fps_of_positive)
  from s l n e f show ?thesis by simp
qed

lemma long_durations:
  "take 120 (frame_durations example_runtime (split_on newline (gfx_text gfx_long_lines)))
     = replicate 70 10 @ replicate 50 20"
  by code_simp

lemma long_recent:
  "drop (length (replicate 70 (10::real) @ replicate 50 20) - 60)
       (replicate 70 (10::real) @ replicate 50 20)
     = replicate 10 10 @ replicate 50 20"
  by code_simp

lemma long_mean:
  "min (1000 / (sum_list (replicate 10 (10::real) @ replicate 50 20)
                  / real (length (replicate 10 (10::real) @ replicate 50 20)))) 60 = 600 / 11"
  by code_simp

lemma fast_durations:
  "take 120 (frame_durations example_runtime (split_on newline (gfx_text gfx_fast_lines))) = [10]"
  by code_simp

lemma no_durations:
  "take 120 (frame_durations example_runtime (split_on newline (gfx_text [''12.0'', ''n/a'']))) = []"
  by code_simp

lemma mixed_durations:
  "take 120 (frame_durations example_runtime (split_on newline (gfx_text gfx_lines)))
     = [20, 10, 30]"
  by code_simp

lemma gfx_device_answers:
  "package_name (new_android_collector ''com.example.app'') \<noteq> []
   \<and> gfx_device lines
        (''shell dumpsys gfxinfo '' @ package_name (new_android_collector ''com.example.app''))
      = Some (gfx_text lines)"
  by (simp add: gfx_device_def new_android_collector_def)

theorem fps_from_frame_times_witness:
  "collect_fps example_runtime (gfx_device gfx_long_lines) (new_android_collector ''com.example.app'')
     = 600 / 11
   \<and> scan_frames example_runtime False [] (split_on newline (gfx_text gfx_long_lines))
     = replicate 70 10 @ replicate 50 20
   \<and> collect_fps example_runtime (gfx_device gfx_fast_lines) (new_android_collector ''com.example.app'')
     = 60
   \<and> collect_fps example_runtime (gfx_device [''12.0'', ''n/a'']) (new_android_collector ''com.example.app'')
     = 0
   \<and> collect_fps example_runtime (gfx_device gfx_lines) (new_android_collector ''com.example.app'')
     = 50"
proof -
  let ?c = "new_android_collector ''com.example.app''"
  note a = conjunct1 [OF gfx_device_answers]
  note b = conjunct2 [OF gfx_device_answers]
  from fps_from_frame_times [of ?c "gfx_device gfx_long_lines" "gfx_text gfx_long_lines"
      "replicate 70 10 @ replicate 50 20" example_runtime "replicate 10 10 @ replicate 50 20",
      OF a b long_durations [symmetric] long_recent [symmetric]] long_mean
  have l: "collect_fps example_runtime (gfx_device gfx_long_lines) ?c = 600 / 11"
    "scan_frames example_runtime False [] (split_on newline (gfx_text gfx_long_lines))
       = replicate 70 10 @ replicate 50 20"
    by simp_all
  have d: "[10::real] = drop (length [10::real] - 60) [10]" by simp
  from fps_from_frame_times [of ?c "gfx_device gfx_fast_lines" "gfx_text gfx_fast_lines"
      "[10]" example_runtime "[10]", OF a b fast_durations [symmetric] d]
  have f: "collect_fps example_runtime (gfx_device gfx_fast_lines) ?c = 60" by simp
  have d0: "([]::real list) = drop (length ([]::real list) - 60) []" by simp
  from fps_from_frame_times [of ?c "gfx_device [''12.0'', ''n/a'']" "gfx_text [''12.0'', ''n/a'']"
      "[]" example_runtime "[]", OF a b no_durations [symmetric] d0]
  have z: "collect_fps example_runtime (gfx_device [''12.0'', ''n/a'']) ?c = 0" by simp
  have d3: "[20, 10, 30] = drop (length [20, 10, 30::real] - 60) [20, 10, 30::real]" by simp
  from fps_from_frame_times [of ?c "gfx_device gfx_lines" "gfx_text gfx_lines"
      "[20, 10, 30]" example_runtime "[20, 10, 30]", OF a b mixed_durations [symmetric] d3]
  have x: "collect_fps example_runtime (gfx_device gfx_lines) ?c = 50" by simp
  from l f z x show ?thesis by simp
qed

subsection \<open>The sample buffer\<close>

lemma tick_fields:
  assumes "tick api now (dc, m) = (data, dc', m')"
  shows "max_buffer_size dc' = max_buffer_size dc"
    and "data_buffer dc' = buffer_append (max_buffer_size dc) (data_buffer dc) data"
    and "is_collecting dc' = is_collecting dc"
    and "callbacks dc' = callbacks dc"
    and "m' = fold (\<lambda>callback. callback data) (callbacks dc) m"
  using assms by (auto simp add: tick_def split: prod.splits)

lemma length_last_n: "length (last_n n xs) = min n (length xs)"
  by (simp add: last_n_def)

lemma last_n_all: "length xs \<le> n \<Longrightarrow> last_n n xs = xs"
  by (simp add: last_n_def)

lemma last_n_append: "last_n n (last_n n xs @ ys) = last_n n (xs @ ys)"
proof (cases "length xs \<le> n")
  case True
  then show ?thesis by (simp add: last_n_all)
next
  case False
  then have "length xs + length ys - n = length ys + (length xs - n)" by simp
  with False show ?thesis by (simp add: last_n_def)
qed

lemma buffer_append_last_n:
  assumes "0 \<le> cap" and "int (length buf) \<le> cap"
  shows "buffer_append cap buf d = last_n (nat cap) (buf @ [d])"
proof (cases "int (length (buf @ [d])) > cap")
  case True
  with assms have "length buf = nat cap" by simp
  with True show ?thesis by (cases buf) (simp_all add: buffer_append_def last_n_def)
next
  case False
  then show ?thesis by (simp add: buffer_append_def last_n_def)
qed

text \<open>One tick keeps the buffer within its capacity and evicts from the head only.\<close>

lemma tick_buffer_bounded:
  assumes "tick api now (dc, m) = (data, dc', m')"
      and "0 \<le> max_buffer_size dc"
      and "int (length (data_buffer dc)) \<le> max_buffer_size dc"
  shows "int (length (data_buffer dc')) \<le> max_buffer_size dc'
         \<and> data_buffer dc' = last_n (nat (max_buffer_size dc)) (data_buffer dc @ [data])"
proof -
  note f = tick_fields [OF assms(1)]
  have "data_buffer dc' = last_n (nat (max_buffer_size dc)) (data_buffer dc @ [data])"
    using f(2) assms(2,3) by (simp add: buffer_append_last_n)
  moreover from this have "length (data_buffer dc') \<le> nat (max_buffer_size dc)"
    by (simp add: length_last_n)
  ultimately show ?thesis using f(1) assms(2) by simp
qed

lemma loop_buffer:
  assumes "collection_loop fuel w interval duration start k now trace (dc, m) = Some (ex, trace', dc', m')"
      and "0 \<le> max_buffer_size dc"
      and "int (length (data_buffer dc)) \<le> max_buffer_size dc"
  shows "\<exists>new. trace' = trace @ new \<and> max_buffer_size dc' = max_buffer_size dc
           \<and> data_buffer dc' = last_n (nat (max_buffer_size dc)) (data_buffer dc @ new)"
  using assms
proof (induction fuel arbitrary: k now trace dc m)
  case 0
  then show ?case by simp
next
  case (Suc fuel)
  let ?cap = "max_buffer_size dc"
  have keep: "last_n (nat ?cap) (data_buffer dc) = data_buffer dc"
    using Suc.prems(2,3) by (simp add: last_n_all)
  show ?case
  proof (cases "\<not> is_collecting dc \<or> stop_at w k \<or> duration_elapsed duration now start")
    case True
    with Suc.prems(1) have "trace' = trace" "dc' = dc\<lparr>is_collecting := False\<rparr>"
      by (auto split: if_splits)
    with keep show ?thesis by simp
  next
    case False
    obtain data dc1 m1 where t: "tick (api_at w k now) now (dc, m) = (data, dc1, m1)"
      by (cases "tick (api_at w k now) now (dc, m)") auto
    note f = tick_fields [OF t]
    have b1: "data_buffer dc1 = last_n (nat ?cap) (data_buffer dc @ [data])"
      using f(2) Suc.prems(2,3) by (simp add: buffer_append_last_n)
    show ?thesis
    proof (cases "interval < 0")
      case True
      with False t Suc.prems(1) have "trace' = trace @ [data]" "dc' = dc1" by auto
      with b1 f(1) show ?thesis by simp
    next
      case nonneg: False
      with False t Suc.prems(1)
      have run: "collection_loop fuel w interval duration start (Suc k)
          (now + interval + latency_at w k) (trace @ [data]) (dc1, m1) = Some (ex, trace', dc', m')"
        by auto
      have c1: "0 \<le> max_buffer_size dc1" using f(1) Suc.prems(2) by simp
      have l1: "int (length (data_buffer dc1)) \<le> max_buffer_size dc1"
        using b1 f(1) Suc.prems(2) by (simp add: length_last_n)
      from Suc.IH [OF run c1 l1] obtain new where
        n: "trace' = (trace @ [data]) @ new" "max_buffer_size dc' = max_buffer_size dc1"
           "data_buffer dc' = last_n (nat (max_buffer_size dc1)) (data_buffer dc1 @ new)"
        by blast
      have "data_buffer dc' = last_n (nat ?cap) (data_buffer dc @ data # new)"
        using n(3) f(1) b1 last_n_append [of "nat ?cap" "data_buffer dc @ [data]" new] by simp
      with n(1,2) f(1) show ?thesis by simp
    qed
  qed
qed

text \<open>
  C3. A run of the loop that starts with a buffer within a non-negative capacity and
  assembles \<open>samples\<close> leaves a buffer within the capacity: it holds the last
  \<open>capacity\<close> elements of the old buffer followed by \<open>samples\<close>, in that order
  (all of them when there are fewer). A stop request can end a run after any tick, so
  this holds after every completed tick.
\<close>

theorem buffer_bounded:
  assumes "collection_loop fuel w interval duration start 0 now [] (dc, m) = Some (ex, samples, dc', m')"
      and "0 \<le> max_buffer_size dc"
      and "int (length (data_buffer dc)) \<le> max_buffer_size dc"
  shows "int (length (data_buffer dc')) \<le> max_buffer_size dc
         \<and> max_buffer_size dc' = max_buffer_size dc
         \<and> data_buffer dc'
             = drop (length (data_buffer dc @ samples) - nat (max_buffer_size dc))
                 (data_buffer dc @ samples)"
proof -
  from loop_buffer [OF assms] have
    a: "max_buffer_size dc' = max_buffer_size dc" and
    b: "data_buffer dc' = last_n (nat (max_buffer_size dc)) (data_buffer dc @ samples)"
    by auto
  from b have "length (data_buffer dc') \<le> nat (max_buffer_size dc)"
    by (simp add: length_last_n)
  with assms(2) have "int (length (data_buffer dc')) \<le> max_buffer_size dc" by simp
  moreover from b have "data_buffer dc'
             = drop (length (data_buffer dc @ samples) - nat (max_buffer_size dc))
                 (data_buffer dc @ samples)"
    by (simp only: last_n_def)
  ultimately show ?thesis using a by blast
qed

lemma small_run:
  "map_option (\<lambda>(ex, samples, dc, mon). (ex, samples, data_buffer dc, max_buffer_size dc))
     (collection_loop 4 (quiet_world 3) 1 None 0 0 0 [] (small_collector, new_monitor))
   = Some (Exited, [idle_sample 0, idle_sample 1, idle_sample 2],
           [idle_sample 1, idle_sample 2], 2)"
  by code_simp

theorem buffer_bounded_witness:
  "\<exists>dc' mon'.
     collection_loop 4 (quiet_world 3) 1 None 0 0 0 [] (small_collector, new_monitor)
       = Some (Exited, [idle_sample 0, idle_sample 1, idle_sample 2], dc', mon')
     \<and> int (length (data_buffer dc')) \<le> 2
     \<and> data_buffer dc' = [idle_sample 1, idle_sample 2]"
proof -
  from small_run obtain dc' mon' where
    run: "collection_loop 4 (quiet_world 3) 1 None 0 0 0 [] (small_collector, new_monitor)
            = Some (Exited, [idle_sample 0, idle_sample 1, idle_sample 2], dc', mon')"
    by auto
  have cap: "max_buffer_size small_collector = 2" "data_buffer small_collector = []"
    by (simp_all add: small_collector_def start_continuous_collection_def add_callback_def
        new_data_collector_def)
  from buffer_bounded [OF run] cap
  have "int (length (data_buffer dc')) \<le> 2 \<and> data_buffer dc' = [idle_sample 1, idle_sample 2]"
    by simp
  with run show ?thesis by blast
qed

subsection \<open>Alerts and the loop\<close>

lemma fold_on_data_collected:
  "alerts (fold (\<lambda>callback. callback data) [on_data_collected] mon) = alerts mon"
  by (simp add: on_data_collected_def)

lemma loop_alerts:
  assumes "collection_loop fuel w interval duration start k now trace (dc, mon) = Some (ex, trace', dc', mon')"
      and "callbacks dc = [on_data_collected]"
  shows "alerts mon' = alerts mon"
  using assms
proof (induction fuel arbitrary: k now trace dc mon)
  case 0
  then show ?case by simp
next
  case (Suc fuel)
  show ?case
  proof (cases "\<not> is_collecting dc \<or> stop_at w k \<or> duration_elapsed duration now start")
    case True
    with Suc.prems(1) show ?thesis by (auto split: if_splits)
  next
    case False
    obtain data dc1 m1 where t: "tick (api_at w k now) now (dc, mon) = (data, dc1, m1)"
      by (cases "tick (api_at w k now) now (dc, mon)") auto
    note f = tick_fields [OF t]
    have a1: "alerts m1 = alerts mon" using f(5) Suc.prems(2) by (simp add: on_data_collected_def)
    show ?thesis
    proof (cases "interval < 0")
      case True
      with False t Suc.prems(1) have "mon' = m1" by auto
      with a1 show ?thesis by simp
    next
      case nonneg: False
      with False t Suc.prems(1)
      have run: "collection_loop fuel w interval duration start (Suc k)
          (now + interval + latency_at w k) (trace @ [data]) (dc1, m1) = Some (ex, trace', dc', mon')"
        by auto
      from Suc.IH [OF run] f(4) Suc.prems(2) a1 show ?thesis by simp
    qed
  qed
qed

text \<open>
  C4 fails on the code. One tick of the loop as the monitor starts it, on a device
  that reports 95% CPU for the process: the sample's CPU reading is above the
  threshold of 80 and the monitor's alerts stay empty, because neither
  \<^verbatim>\<open>DataCollector.collect_all\<close> nor the callback calls \<^verbatim>\<open>_check_alert\<close>.
\<close>

theorem loop_tick_appends_no_alert:
  "map_option (\<lambda>(ex, samples, dc, mon). (map cpu_usage samples, alerts mon))
     (collection_loop 2 (hot_world 1) 1 None 0 0 0 [] (monitored_collector, new_monitor))
   = Some ([95], [])
   \<and> cpu_threshold default_alert_config = 80"
  by code_simp

text \<open>The single-metric call on the same device does append the alert.\<close>

lemma single_call_appends_alert:
  "map_sum id (\<lambda>(v, dco, mon). (v, alerts mon))
     (apm_collect_cpu example_runtime default_alert_config
        (android_api example_runtime hot_device 0) 0 (Some fresh_collector) new_monitor)
   = Inr (95, [\<lparr>alert_timestamp = 0, alert_metric = ''cpu'', alert_value = 95,
                 alert_threshold = 80, alert_message = ''CPU above threshold: 95.0 > 80.0''\<rparr>])"
  by code_simp

subsection \<open>Bounded runs\<close>

lemma loop_bounded:
  assumes "0 < D" and "0 < I" and "\<forall>j. 0 \<le> latency_at w j"
      and "real k * I \<le> now - start"
      and "k \<le> nat \<lceil>D / I\<rceil>" and "nat \<lceil>D / I\<rceil> < k + fuel"
  shows "\<exists>trace' dc' m'.
           collection_loop fuel w I (Some D) start k now trace (dc, m) = Some (Exited, trace', dc', m')
           \<and> length trace' + k \<le> length trace + nat \<lceil>D / I\<rceil>
           \<and> \<not> is_collecting dc'"
  using assms(4,5,6)
proof (induction fuel arbitrary: k now trace dc m)
  case 0
  then show ?case by simp
next
  case (Suc fuel)
  let ?n = "nat \<lceil>D / I\<rceil>"
  show ?case
  proof (cases "\<not> is_collecting dc \<or> stop_at w k \<or> duration_elapsed (Some D) now start")
    case True
    then have "collection_loop (Suc fuel) w I (Some D) start k now trace (dc, m)
       = Some (Exited, trace, dc\<lparr>is_collecting := False\<rparr>, m)"
      by auto
    with Suc.prems(2) show ?thesis by simp
  next
    case False
    then have ne: "now - start < D" using assms(1) by (simp add: duration_elapsed_def)
    with Suc.prems(1) have "real k * I < D" by simp
    with assms(2) have "real k < D / I" by (simp add: pos_less_divide_eq)
    also have "D / I \<le> real_of_int \<lceil>D / I\<rceil>" by simp
    finally have "int k < \<lceil>D / I\<rceil>" by linarith
    then have kn: "Suc k \<le> ?n" by linarith
    obtain data dc1 m1 where t: "tick (api_at w k now) now (dc, m) = (data, dc1, m1)"
      by (cases "tick (api_at w k now) now (dc, m)") auto
    from False t assms(2)
    have step: "collection_loop (Suc fuel) w I (Some D) start k now trace (dc, m)
       = collection_loop fuel w I (Some D) start (Suc k) (now + I + latency_at w k) (trace @ [data]) (dc1, m1)"
      by auto
    have el: "real (Suc k) * I \<le> now + I + latency_at w k - start"
      using Suc.prems(1) assms(3) by (simp add: algebra_simps add_increasing2)
    have fu: "?n < Suc k + fuel" using Suc.prems(3) by simp
    from Suc.IH [OF el kn fu, of "trace @ [data]" dc1 m1] step
    show ?thesis by auto
  qed
qed

text \<open>
  C6. A run with duration \<open>D > 0\<close> and interval \<open>I > 0\<close>, on a clock that each
  iteration advances by at least the interval it sleeps, leaves the loop within
  \<open>\<lceil>D / I\<rceil> + 1\<close> iterations: it has assembled at most \<open>\<lceil>D / I\<rceil> + 1\<close> samples and
  \<^verbatim>\<open>is_collecting\<close> is false.
\<close>

theorem bounded_run:
  assumes "0 < D" and "0 < I" and "\<forall>j. 0 \<le> latency_at w j"
      and "start \<le> now" and "nat \<lceil>D / I\<rceil> < fuel"
  shows "\<exists>samples dc' m'.
           collection_loop fuel w I (Some D) start 0 now [] (dc, m) = Some (Exited, samples, dc', m')
           \<and> int (length samples) \<le> \<lceil>D / I\<rceil> + 1
           \<and> \<not> is_collecting dc'"
proof -
  have a: "real 0 * I \<le> now - start" using assms(4) by simp
  have b: "0 \<le> nat \<lceil>D / I\<rceil>" by simp
  have c: "nat \<lceil>D / I\<rceil> < 0 + fuel" using assms(5) by simp
  from loop_bounded [OF assms(1,2,3) a b c, of "[]" dc m]
  obtain samples dc' m' where
    r: "collection_loop fuel w I (Some D) start 0 now [] (dc, m) = Some (Exited, samples, dc', m')"
       "length samples \<le> nat \<lceil>D / I\<rceil>" "\<not> is_collecting dc'"
    by auto
  have "0 < D / I" using assms(1,2) by simp
  then have "0 \<le> \<lceil>D / I\<rceil>" by (simp add: less_imp_le order_less_trans [of "- 1" 0])
  with r(2) have "int (length samples) \<le> \<lceil>D / I\<rceil> + 1" by linarith
  with r(1,3) show ?thesis by blast
qed


lemma bounded_run_samples:
  "map_option (\<lambda>(ex, samples, dc, mon). (ex, samples, is_collecting dc))
     (collection_loop 5 (quiet_world 100) 1 (Some 3) 0 0 0 [] (small_collector, new_monitor))
   = Some (Exited, [idle_sample 0, idle_sample 1, idle_sample 2], False)"
  by code_simp

theorem bounded_run_witness:
  "\<exists>samples dc' mon'.
     collection_loop 5 (quiet_world 100) 1 (Some 3) 0 0 0 [] (small_collector, new_monitor)
       = Some (Exited, samples, dc', mon')
     \<and> int (length samples) \<le> 4 \<and> \<not> is_collecting dc'"
proof -
  have l: "\<forall>j. 0 \<le> latency_at (quiet_world 100) j" by (simp add: quiet_world_def)
  have f: "nat \<lceil>(3::real) / 1\<rceil> < 5" by simp
  from bounded_run [of 3 1 "quiet_world 100" 0 0 5 small_collector new_monitor] l f
  show ?thesis by simp
qed

end
